theory Spec2Isabelle
  imports Main
begin

section \<open>The Python of the notebook\<close>

text \<open>
  The repository is one Jupyter notebook, \<^verbatim>\<open>notebooks/iclr2017.ipynb\<close>, whose
  kernel is Python 2.7. Its fourteen code cells are transcribed below as abstract syntax
  trees, statement by statement, and run by an interpreter for the part of Python they
  are written in. Everything the cells obtain from tensorflow, edward, keras and numpy
  is outside the repository: the interpreter hands each such operation to a parameter,
  the library, that may answer with any value or raise any exception.
\<close>

subsection \<open>Abstract syntax\<close>

datatype binop = Add | Mult | Div

datatype expr =
    Name string
  | Num int
  | FloatLit string
  | Str string
  | NoneLit
  | SliceAll
  | ListE "expr list"
  | TupleE "expr list"
  | DictE "(expr \<times> expr) list"
  | BinOp expr binop expr
  | Attribute expr string
  | Subscript expr expr
  | Call expr "expr list" "(string \<times> expr) list"

datatype target = TName string | TSubscript expr expr

text \<open>
  \<open>Import m a\<close> is \<^verbatim>\<open>import m as a\<close>, \<open>ImportFrom m ns\<close> is
  \<^verbatim>\<open>from m import n1, n2\<close>, \<open>Try body c handler\<close> is
  \<^verbatim>\<open>try: body except c: handler\<close> (a bare \<^verbatim>\<open>except:\<close> when \<open>c\<close> is
  \<open>None\<close>). The notebook uses the first seven forms only; the last four are the
  statement forms its text is claimed not to contain.
\<close>

datatype stmt =
    Import string string
  | ImportFrom string "string list"
  | Assign target expr
  | ExprStmt expr
  | For string expr "stmt list"
  | FunctionDef string "string list" "stmt list"
  | Return expr
  | If expr "stmt list" "stmt list"
  | While expr "stmt list"
  | Try "stmt list" "string option" "stmt list"
  | ClassDef string "stmt list"

subsection \<open>Values, exceptions and the state of the interpreter\<close>

text \<open>
  Floating-point arithmetic is not interpreted: a float is the term that computes it.
\<close>

datatype pyfloat = FLit string | FOfInt int | FBin binop pyfloat pyfloat

text \<open>
  A list is a reference into the heap (lists are mutable and may be shared). A dictionary
  is never changed after it is built by the notebook, so it is the association list of
  its items. \<open>VObj\<close> is the handle of an object owned by an external library: a module,
  a class, a tensor, a random variable, an inference object, a bound method.
\<close>

datatype val =
    VInt int
  | VFloat pyfloat
  | VStr string
  | VNone
  | VBool bool
  | VSliceAll
  | VList nat
  | VTuple "val list"
  | VDict "(val \<times> val) list"
  | VFun string "string list" "stmt list"
  | VBuiltin string
  | VObj nat

datatype exn =
    NameError string
  | UnboundLocalError string
  | TypeError
  | IndexError
  | KeyError
  | ZeroDivisionError
  | RuntimeError
  | OtherError string

text \<open>
  \<open>Unsupported\<close> is not a Python exception: it marks a construct or an operation
  outside the fragment that the interpreter gives a meaning to.
\<close>

datatype abort = Raise exn | Unsupported

datatype flow = Next | Ret val | Abort abort

record 's pystate =
  globals :: "string \<Rightarrow> val option"
  locals :: "(string list \<times> (string \<Rightarrow> val option)) option"
  heap :: "val list list"
  libst :: 's

text \<open>The operations that Python delegates to the external libraries.\<close>

datatype libreq =
    LImport string
  | LImportFrom val string
  | LGetAttr val string
  | LCall val "val list" "(string \<times> val) list"
  | LBinOp binop val val
  | LGetItem val val
  | LSetItem val val val

type_synonym 's library = "libreq \<Rightarrow> 's pystate \<Rightarrow> (exn + val) \<times> 's"

definition ask :: "'s library \<Rightarrow> libreq \<Rightarrow> 's pystate \<Rightarrow> (abort + val) \<times> 's pystate" where
  "ask lib req st =
     (case lib req st of
        (Inl e, s) \<Rightarrow> (Inl (Raise e), st\<lparr>libst := s\<rparr>)
      | (Inr v, s) \<Rightarrow> (Inr v, st\<lparr>libst := s\<rparr>))"

subsection \<open>Names\<close>

text \<open>
  The built-in namespace of Python 2.7: its built-in functions (section 2 of the library
  reference), its built-in exceptions (section 6) and its other constants (section 4).
\<close>

definition py_builtins :: "string list" where
  "py_builtins =
     [''abs'', ''all'', ''any'', ''basestring'', ''bin'', ''bool'', ''bytearray'',
      ''callable'', ''chr'', ''classmethod'', ''cmp'', ''compile'', ''complex'',
      ''delattr'', ''dict'', ''dir'', ''divmod'', ''enumerate'', ''eval'', ''execfile'',
      ''file'', ''filter'', ''float'', ''format'', ''frozenset'', ''getattr'',
      ''globals'', ''hasattr'', ''hash'', ''help'', ''hex'', ''id'', ''input'', ''int'',
      ''isinstance'', ''issubclass'', ''iter'', ''len'', ''list'', ''locals'', ''long'',
      ''map'', ''max'', ''memoryview'', ''min'', ''next'', ''object'', ''oct'', ''open'',
      ''ord'', ''pow'', ''print'', ''property'', ''range'', ''raw_input'', ''reduce'',
      ''reload'', ''repr'', ''reversed'', ''round'', ''set'', ''setattr'', ''slice'',
      ''sorted'', ''staticmethod'', ''str'', ''sum'', ''super'', ''tuple'', ''type'',
      ''unichr'', ''unicode'', ''vars'', ''xrange'', ''zip'', ''__import__'',
      ''apply'', ''buffer'', ''coerce'', ''intern'']"

definition py_builtin_exceptions :: "string list" where
  "py_builtin_exceptions =
     [''BaseException'', ''SystemExit'', ''KeyboardInterrupt'', ''GeneratorExit'',
      ''Exception'', ''StopIteration'', ''StandardError'', ''BufferError'',
      ''ArithmeticError'', ''FloatingPointError'', ''OverflowError'',
      ''ZeroDivisionError'', ''AssertionError'', ''AttributeError'',
      ''EnvironmentError'', ''IOError'', ''OSError'', ''EOFError'', ''ImportError'',
      ''LookupError'', ''IndexError'', ''KeyError'', ''MemoryError'', ''NameError'',
      ''UnboundLocalError'', ''ReferenceError'', ''RuntimeError'',
      ''NotImplementedError'', ''SyntaxError'', ''IndentationError'', ''TabError'',
      ''SystemError'', ''TypeError'', ''ValueError'', ''UnicodeError'',
      ''UnicodeDecodeError'', ''UnicodeEncodeError'', ''UnicodeTranslateError'',
      ''Warning'', ''DeprecationWarning'', ''PendingDeprecationWarning'',
      ''RuntimeWarning'', ''SyntaxWarning'', ''UserWarning'', ''FutureWarning'',
      ''ImportWarning'', ''UnicodeWarning'', ''BytesWarning'']"

definition py_builtin_constants :: "string list" where
  "py_builtin_constants =
     [''NotImplemented'', ''Ellipsis'', ''__debug__'', ''quit'', ''exit'', ''copyright'',
      ''license'', ''credits'']"

text \<open>
  In Python 2 \<^verbatim>\<open>True\<close> and \<^verbatim>\<open>False\<close> are names of the built-in namespace,
  looked up like the others.
\<close>

definition builtin_value :: "string \<Rightarrow> val option" where
  "builtin_value x =
     (if x = ''True'' then Some (VBool True)
      else if x = ''False'' then Some (VBool False)
      else if x \<in> set py_builtins then Some (VBuiltin x)
      else if x \<in> set py_builtin_exceptions then Some (VBuiltin x)
      else if x \<in> set py_builtin_constants then Some (VBuiltin x)
      else None)"

definition lookup_global :: "string \<Rightarrow> 's pystate \<Rightarrow> abort + val" where
  "lookup_global x st =
     (case globals st x of
        Some v \<Rightarrow> Inr v
      | None \<Rightarrow>
          (case builtin_value x of
             Some v \<Rightarrow> Inr v
           | None \<Rightarrow> Inl (Raise (NameError x))))"

text \<open>
  Inside a function every name the function assigns is local for the whole body, and
  reading it before it is bound raises UnboundLocalError.
\<close>

definition lookup_name :: "string \<Rightarrow> 's pystate \<Rightarrow> abort + val" where
  "lookup_name x st =
     (case locals st of
        None \<Rightarrow> lookup_global x st
      | Some (ns, l) \<Rightarrow>
          if x \<in> set ns
          then (case l x of None \<Rightarrow> Inl (Raise (UnboundLocalError x)) | Some v \<Rightarrow> Inr v)
          else lookup_global x st)"

definition store_name :: "string \<Rightarrow> val \<Rightarrow> 's pystate \<Rightarrow> 's pystate" where
  "store_name x v st =
     (case locals st of
        None \<Rightarrow> st\<lparr>globals := (globals st)(x \<mapsto> v)\<rparr>
      | Some (ns, l) \<Rightarrow> st\<lparr>locals := Some (ns, l(x \<mapsto> v))\<rparr>)"

fun binds :: "stmt \<Rightarrow> string list" and binds_block :: "stmt list \<Rightarrow> string list" where
  "binds (Import m a) = [a]"
| "binds (ImportFrom m ns) = ns"
| "binds (Assign (TName x) e) = [x]"
| "binds (Assign (TSubscript b i) e) = []"
| "binds (ExprStmt e) = []"
| "binds (For v e body) = v # binds_block body"
| "binds (FunctionDef f ps body) = [f]"
| "binds (Return e) = []"
| "binds (If c a b) = binds_block a @ binds_block b"
| "binds (While c body) = binds_block body"
| "binds (Try body c handler) = binds_block body @ binds_block handler"
| "binds (ClassDef c body) = [c]"
| "binds_block [] = []"
| "binds_block (s # ss) = binds s @ binds_block ss"

subsection \<open>Primitive operations\<close>

definition alloc_list :: "val list \<Rightarrow> 's pystate \<Rightarrow> (abort + val) \<times> 's pystate" where
  "alloc_list vs st = (Inr (VList (length (heap st))), st\<lparr>heap := heap st @ [vs]\<rparr>)"

definition is_obj :: "val \<Rightarrow> bool" where
  "is_obj v = (case v of VObj h \<Rightarrow> True | _ \<Rightarrow> False)"

text \<open>
  Integers are unbounded and \<^verbatim>\<open>/\<close> on two of them is the floor division of Python 2.
  A sequence is repeated by an integer only: multiplying a list by a list, a float or
  anything else that is not a library object raises TypeError.
\<close>

definition int_binop :: "binop \<Rightarrow> int \<Rightarrow> int \<Rightarrow> abort + val" where
  "int_binop op a b =
     (case op of
        Add \<Rightarrow> Inr (VInt (a + b))
      | Mult \<Rightarrow> Inr (VInt (a * b))
      | Div \<Rightarrow> if b = 0 then Inl (Raise ZeroDivisionError) else Inr (VInt (a div b)))"

definition list_repeat :: "nat \<Rightarrow> int \<Rightarrow> 's pystate \<Rightarrow> (abort + val) \<times> 's pystate" where
  "list_repeat r n st =
     (if r < length (heap st) then alloc_list (concat (replicate (nat n) (heap st ! r))) st
      else (Inl Unsupported, st))"

text \<open>A boolean counts as the integer 1 or 0 where an integer is expected.\<close>

fun as_index :: "val \<Rightarrow> int option" where
  "as_index (VInt k) = Some k"
| "as_index (VBool b) = Some (if b then 1 else 0)"
| "as_index v = None"

definition list_binop :: "binop \<Rightarrow> nat \<Rightarrow> val \<Rightarrow> 's pystate \<Rightarrow> (abort + val) \<times> 's pystate" where
  "list_binop op p r st =
     (case r of
        VInt n \<Rightarrow> if op = Mult then list_repeat p n st else (Inl (Raise TypeError), st)
      | VBool b \<Rightarrow>
          if op = Mult then list_repeat p (if b then 1 else 0) st
          else (Inl (Raise TypeError), st)
      | VList q \<Rightarrow>
          if op = Add
          then (if p < length (heap st) \<and> q < length (heap st)
                then alloc_list (heap st ! p @ heap st ! q) st else (Inl Unsupported, st))
          else (Inl (Raise TypeError), st)
      | _ \<Rightarrow> (Inl (Raise TypeError), st))"

definition py_binop ::
  "'s library \<Rightarrow> binop \<Rightarrow> val \<Rightarrow> val \<Rightarrow> 's pystate \<Rightarrow> (abort + val) \<times> 's pystate" where
  "py_binop lib op l r st =
     (if is_obj l \<or> is_obj r then ask lib (LBinOp op l r) st
      else case l of
        VInt a \<Rightarrow>
          (case r of
             VInt b \<Rightarrow> (int_binop op a b, st)
           | VFloat g \<Rightarrow>
               if op = Div then (Inl Unsupported, st)
               else (Inr (VFloat (FBin op (FOfInt a) g)), st)
           | VList q \<Rightarrow>
               if op = Mult then list_repeat q a st else (Inl (Raise TypeError), st)
           | _ \<Rightarrow> (Inl Unsupported, st))
      | VFloat f \<Rightarrow>
          (case r of
             VInt b \<Rightarrow>
               if op = Div \<and> b = 0 then (Inl (Raise ZeroDivisionError), st)
               else (Inr (VFloat (FBin op f (FOfInt b))), st)
           | VFloat g \<Rightarrow>
               if op = Div then (Inl Unsupported, st)
               else (Inr (VFloat (FBin op f g)), st)
           | VList q \<Rightarrow> (Inl (Raise TypeError), st)
           | _ \<Rightarrow> (Inl Unsupported, st))
      | VList p \<Rightarrow> list_binop op p r st
      | _ \<Rightarrow> (Inl Unsupported, st))"

definition norm_index :: "int \<Rightarrow> nat \<Rightarrow> nat option" where
  "norm_index i n =
     (let j = (if i < 0 then int n + i else i)
      in if 0 \<le> j \<and> j < int n then Some (nat j) else None)"

fun hashable :: "val \<Rightarrow> bool" where
  "hashable (VList r) = False"
| "hashable (VDict kvs) = False"
| "hashable (VTuple vs) = (\<forall>v \<in> set vs. hashable v)"
| "hashable v = True"

definition dict_set :: "(val \<times> val) list \<Rightarrow> val \<Rightarrow> val \<Rightarrow> (val \<times> val) list" where
  "dict_set kvs k v =
     (if k \<in> fst ` set kvs then map (\<lambda>(k', v'). if k' = k then (k', v) else (k', v')) kvs
      else kvs @ [(k, v)])"

definition py_getitem ::
  "'s library \<Rightarrow> val \<Rightarrow> val \<Rightarrow> 's pystate \<Rightarrow> (abort + val) \<times> 's pystate" where
  "py_getitem lib b i st =
     (case b of
        VObj h \<Rightarrow> ask lib (LGetItem b i) st
      | VList r \<Rightarrow>
          (case as_index i of
             Some k \<Rightarrow>
               if r < length (heap st)
               then (case norm_index k (length (heap st ! r)) of
                       None \<Rightarrow> (Inl (Raise IndexError), st)
                     | Some j \<Rightarrow> (Inr (heap st ! r ! j), st))
               else (Inl Unsupported, st)
           | None \<Rightarrow>
               (case i of
                  VObj h \<Rightarrow> (Inl Unsupported, st)
                | VSliceAll \<Rightarrow> (Inl Unsupported, st)
                | _ \<Rightarrow> (Inl (Raise TypeError), st)))
      | VTuple vs \<Rightarrow>
          (case as_index i of
             Some k \<Rightarrow>
               (case norm_index k (length vs) of
                  None \<Rightarrow> (Inl (Raise IndexError), st)
                | Some j \<Rightarrow> (Inr (vs ! j), st))
           | None \<Rightarrow>
               (case i of
                  VObj h \<Rightarrow> (Inl Unsupported, st)
                | VSliceAll \<Rightarrow> (Inl Unsupported, st)
                | _ \<Rightarrow> (Inl (Raise TypeError), st)))
      | VDict kvs \<Rightarrow>
          if hashable i
          then (case map_of kvs i of
                  None \<Rightarrow> (Inl (Raise KeyError), st)
                | Some v \<Rightarrow> (Inr v, st))
          else (Inl (Raise TypeError), st)
      | VStr s \<Rightarrow> (Inl Unsupported, st)
      | _ \<Rightarrow> (Inl (Raise TypeError), st))"

definition py_setitem ::
  "'s library \<Rightarrow> val \<Rightarrow> val \<Rightarrow> val \<Rightarrow> 's pystate \<Rightarrow> flow \<times> 's pystate" where
  "py_setitem lib b i v st =
     (case b of
        VObj h \<Rightarrow>
          (case ask lib (LSetItem b i v) st of
             (Inl a, st') \<Rightarrow> (Abort a, st')
           | (Inr u, st') \<Rightarrow> (Next, st'))
      | VList r \<Rightarrow>
          (case as_index i of
             Some k \<Rightarrow>
               if r < length (heap st)
               then (case norm_index k (length (heap st ! r)) of
                       None \<Rightarrow> (Abort (Raise IndexError), st)
                     | Some j \<Rightarrow> (Next, st\<lparr>heap := (heap st)[r := (heap st ! r)[j := v]]\<rparr>))
               else (Abort Unsupported, st)
           | None \<Rightarrow>
               (case i of
                  VObj h \<Rightarrow> (Abort Unsupported, st)
                | VSliceAll \<Rightarrow> (Abort Unsupported, st)
                | _ \<Rightarrow> (Abort (Raise TypeError), st)))
      | VDict kvs \<Rightarrow> (Abort Unsupported, st)
      | _ \<Rightarrow> (Abort (Raise TypeError), st))"

text \<open>
  Attributes are read from library objects only; the notebook reads no attribute of a
  number, a list or a dictionary.
\<close>

definition py_getattr ::
  "'s library \<Rightarrow> val \<Rightarrow> string \<Rightarrow> 's pystate \<Rightarrow> (abort + val) \<times> 's pystate" where
  "py_getattr lib b a st =
     (case b of
        VObj h \<Rightarrow> ask lib (LGetAttr b a) st
      | _ \<Rightarrow> (Inl Unsupported, st))"

text \<open>
  The two built-in functions the notebook calls. In Python 2, \<^verbatim>\<open>range(n)\<close> is a new
  list of the integers from 0 up to n - 1.
\<close>

definition call_builtin ::
  "string \<Rightarrow> val list \<Rightarrow> (string \<times> val) list \<Rightarrow> 's pystate \<Rightarrow> (abort + val) \<times> 's pystate" where
  "call_builtin f avs kvs st =
     (if f = ''range'' then
        (case (avs, kvs) of
           ([VInt n], []) \<Rightarrow> alloc_list (map (\<lambda>k. VInt (int k)) [0..<nat n]) st
         | ([], []) \<Rightarrow> (Inl (Raise TypeError), st)
         | _ \<Rightarrow> (Inl Unsupported, st))
      else if f = ''float'' then
        (case (avs, kvs) of
           ([VInt n], []) \<Rightarrow> (Inr (VFloat (FOfInt n)), st)
         | ([VFloat x], []) \<Rightarrow> (Inr (VFloat x), st)
         | ([], []) \<Rightarrow> (Inr (VFloat (FLit ''0.0'')), st)
         | _ \<Rightarrow> (Inl Unsupported, st))
      else (Inl Unsupported, st))"

text \<open>
  Binding the arguments of a call to the parameters of a notebook function (which have
  no defaults): positional arguments first, then keywords; an unknown or repeated
  keyword, too many arguments or a parameter left unbound is a TypeError (\<open>None\<close> here).
\<close>

fun bind_keywords ::
  "string list \<Rightarrow> (string \<times> val) list \<Rightarrow> (string \<Rightarrow> val option) \<Rightarrow> (string \<Rightarrow> val option) option" where
  "bind_keywords ps [] l = Some l"
| "bind_keywords ps ((k, v) # kvs) l =
     (if k \<in> set ps \<and> l k = None then bind_keywords ps kvs (l(k \<mapsto> v)) else None)"

definition bind_params ::
  "string list \<Rightarrow> val list \<Rightarrow> (string \<times> val) list \<Rightarrow> (string \<Rightarrow> val option) option" where
  "bind_params ps avs kvs =
     (if length avs \<le> length ps \<and> distinct ps
      then (case bind_keywords ps kvs (map_of (zip ps avs)) of
              None \<Rightarrow> None
            | Some l \<Rightarrow> if (\<forall>p \<in> set ps. l p \<noteq> None) then Some l else None)
      else None)"

text \<open>
  \<^verbatim>\<open>from m import n1, n2\<close> imports the module once, then fetches and binds each name
  in turn.
\<close>

fun import_names ::
  "'s library \<Rightarrow> val \<Rightarrow> string list \<Rightarrow> 's pystate \<Rightarrow> flow \<times> 's pystate" where
  "import_names lib m [] st = (Next, st)"
| "import_names lib m (n # ns) st =
     (case ask lib (LImportFrom m n) st of
        (Inl a, st') \<Rightarrow> (Abort a, st')
      | (Inr v, st') \<Rightarrow> import_names lib m ns (store_name n v st'))"

text \<open>
  Which exceptions \<^verbatim>\<open>except c:\<close> catches, \<open>c\<close> naming a built-in exception
  class: all of them when \<open>c\<close> is absent or is \<^verbatim>\<open>BaseException\<close>, otherwise
  those whose class is \<open>c\<close> or below it in the exception hierarchy of Python 2.7.
  Where an exception raised by a library stands in the hierarchy is not known: whether a
  clause other than these catches it is undecided (\<open>None\<close>).
\<close>

definition exn_class :: "exn \<Rightarrow> string" where
  "exn_class e =
     (case e of
        NameError x \<Rightarrow> ''NameError''
      | UnboundLocalError x \<Rightarrow> ''UnboundLocalError''
      | TypeError \<Rightarrow> ''TypeError''
      | IndexError \<Rightarrow> ''IndexError''
      | KeyError \<Rightarrow> ''KeyError''
      | ZeroDivisionError \<Rightarrow> ''ZeroDivisionError''
      | RuntimeError \<Rightarrow> ''RuntimeError''
      | OtherError c \<Rightarrow> c)"

definition exn_bases :: "exn \<Rightarrow> string list option" where
  "exn_bases e =
     (case e of
        NameError x \<Rightarrow> Some [''StandardError'', ''Exception'']
      | UnboundLocalError x \<Rightarrow> Some [''NameError'', ''StandardError'', ''Exception'']
      | TypeError \<Rightarrow> Some [''StandardError'', ''Exception'']
      | IndexError \<Rightarrow> Some [''LookupError'', ''StandardError'', ''Exception'']
      | KeyError \<Rightarrow> Some [''LookupError'', ''StandardError'', ''Exception'']
      | ZeroDivisionError \<Rightarrow> Some [''ArithmeticError'', ''StandardError'', ''Exception'']
      | RuntimeError \<Rightarrow> Some [''StandardError'', ''Exception'']
      | OtherError c \<Rightarrow> None)"

definition catches :: "string option \<Rightarrow> exn \<Rightarrow> bool option" where
  "catches c e =
     (case c of
        None \<Rightarrow> Some True
      | Some n \<Rightarrow>
          if n = exn_class e \<or> n = ''BaseException'' then Some True
          else (case exn_bases e of
                  None \<Rightarrow> None
                | Some bs \<Rightarrow> Some (n \<in> set bs)))"

subsection \<open>The interpreter\<close>

text \<open>
  \<open>d\<close> is the number of Python frames left before the recursion limit: a call of a
  notebook function with none left raises RuntimeError. Operands are evaluated left to
  right, the callee before its arguments, positional arguments before keywords; in a
  dictionary display Python 2.7 evaluates each value before its key. A \<^verbatim>\<open>for\<close>
  loop walks the list by index. A function passed to a library is passed as a value: what
  the library does with it is part of the library's answer.
\<close>

text \<open>The weight of a statement, for the termination of the interpreter.\<close>

fun weight :: "stmt \<Rightarrow> nat" and weight_block :: "stmt list \<Rightarrow> nat" where
  "weight (Import m a) = 0"
| "weight (ImportFrom m ns) = 0"
| "weight (Assign t e) =
     Suc (size e + (case t of TName x \<Rightarrow> 0 | TSubscript b i \<Rightarrow> size b + size i))"
| "weight (ExprStmt e) = Suc (size e)"
| "weight (For x e body) = Suc (Suc (size e + weight_block body))"
| "weight (FunctionDef f ps body) = 0"
| "weight (Return e) = Suc (size e)"
| "weight (If c a b) = 0"
| "weight (While c body) = 0"
| "weight (Try body c handler) = Suc (weight_block body + weight_block handler)"
| "weight (ClassDef c body) = 0"
| "weight_block [] = 0"
| "weight_block (s # ss) = Suc (weight s + weight_block ss)"

function
  eval_expr :: "'s library \<Rightarrow> nat \<Rightarrow> expr \<Rightarrow> 's pystate \<Rightarrow> (abort + val) \<times> 's pystate"
  and eval_exprs :: "'s library \<Rightarrow> nat \<Rightarrow> expr list \<Rightarrow> 's pystate \<Rightarrow> (abort + val list) \<times> 's pystate"
  and eval_kwargs ::
    "'s library \<Rightarrow> nat \<Rightarrow> (string \<times> expr) list \<Rightarrow> 's pystate \<Rightarrow> (abort + (string \<times> val) list) \<times> 's pystate"
  and eval_items ::
    "'s library \<Rightarrow> nat \<Rightarrow> (expr \<times> expr) list \<Rightarrow> (val \<times> val) list \<Rightarrow> 's pystate \<Rightarrow> (abort + val) \<times> 's pystate"
  and exec_stmt :: "'s library \<Rightarrow> nat \<Rightarrow> stmt \<Rightarrow> 's pystate \<Rightarrow> flow \<times> 's pystate"
  and exec_block :: "'s library \<Rightarrow> nat \<Rightarrow> stmt list \<Rightarrow> 's pystate \<Rightarrow> flow \<times> 's pystate"
  and exec_for ::
    "'s library \<Rightarrow> nat \<Rightarrow> string \<Rightarrow> nat \<Rightarrow> nat list \<Rightarrow> stmt list \<Rightarrow> 's pystate \<Rightarrow> flow \<times> 's pystate"
where
  "eval_expr lib d (Name x) st = (lookup_name x st, st)"
| "eval_expr lib d (Num n) st = (Inr (VInt n), st)"
| "eval_expr lib d (FloatLit s) st = (Inr (VFloat (FLit s)), st)"
| "eval_expr lib d (Str s) st = (Inr (VStr s), st)"
| "eval_expr lib d NoneLit st = (Inr VNone, st)"
| "eval_expr lib d SliceAll st = (Inr VSliceAll, st)"
| "eval_expr lib d (ListE es) st =
     (case eval_exprs lib d es st of
        (Inl a, st1) \<Rightarrow> (Inl a, st1)
      | (Inr vs, st1) \<Rightarrow> alloc_list vs st1)"
| "eval_expr lib d (TupleE es) st =
     (case eval_exprs lib d es st of
        (Inl a, st1) \<Rightarrow> (Inl a, st1)
      | (Inr vs, st1) \<Rightarrow> (Inr (VTuple vs), st1))"
| "eval_expr lib d (DictE items) st = eval_items lib d items [] st"
| "eval_expr lib d (BinOp l op r) st =
     (case eval_expr lib d l st of
        (Inl a, st1) \<Rightarrow> (Inl a, st1)
      | (Inr lv, st1) \<Rightarrow>
          (case eval_expr lib d r st1 of
             (Inl a, st2) \<Rightarrow> (Inl a, st2)
           | (Inr rv, st2) \<Rightarrow> py_binop lib op lv rv st2))"
| "eval_expr lib d (Attribute e a) st =
     (case eval_expr lib d e st of
        (Inl a', st1) \<Rightarrow> (Inl a', st1)
      | (Inr v, st1) \<Rightarrow> py_getattr lib v a st1)"
| "eval_expr lib d (Subscript e i) st =
     (case eval_expr lib d e st of
        (Inl a, st1) \<Rightarrow> (Inl a, st1)
      | (Inr bv, st1) \<Rightarrow>
          (case eval_expr lib d i st1 of
             (Inl a, st2) \<Rightarrow> (Inl a, st2)
           | (Inr iv, st2) \<Rightarrow> py_getitem lib bv iv st2))"
| "eval_expr lib d (Call f args kws) st =
     (case eval_expr lib d f st of
        (Inl a, st1) \<Rightarrow> (Inl a, st1)
      | (Inr fv, st1) \<Rightarrow>
          (case eval_exprs lib d args st1 of
             (Inl a, st2) \<Rightarrow> (Inl a, st2)
           | (Inr avs, st2) \<Rightarrow>
               (case eval_kwargs lib d kws st2 of
                  (Inl a, st3) \<Rightarrow> (Inl a, st3)
                | (Inr kvs, st3) \<Rightarrow>
                    (case fv of
                       VObj h \<Rightarrow> ask lib (LCall fv avs kvs) st3
                     | VBuiltin b \<Rightarrow> call_builtin b avs kvs st3
                     | VFun n ps body \<Rightarrow>
                         (case bind_params ps avs kvs of
                            None \<Rightarrow> (Inl (Raise TypeError), st3)
                          | Some l \<Rightarrow>
                              if d = 0 then (Inl (Raise RuntimeError), st3)
                              else
                                (case exec_block lib (d - 1) body
                                        (st3\<lparr>locals := Some (ps @ binds_block body, l)\<rparr>) of
                                   (Next, st4) \<Rightarrow> (Inr VNone, st4\<lparr>locals := locals st3\<rparr>)
                                 | (Ret v, st4) \<Rightarrow> (Inr v, st4\<lparr>locals := locals st3\<rparr>)
                                 | (Abort a, st4) \<Rightarrow> (Inl a, st4\<lparr>locals := locals st3\<rparr>)))
                     | _ \<Rightarrow> (Inl (Raise TypeError), st3)))))"
| "eval_exprs lib d [] st = (Inr [], st)"
| "eval_exprs lib d (e # es) st =
     (case eval_expr lib d e st of
        (Inl a, st1) \<Rightarrow> (Inl a, st1)
      | (Inr v, st1) \<Rightarrow>
          (case eval_exprs lib d es st1 of
             (Inl a, st2) \<Rightarrow> (Inl a, st2)
           | (Inr vs, st2) \<Rightarrow> (Inr (v # vs), st2)))"
| "eval_kwargs lib d [] st = (Inr [], st)"
| "eval_kwargs lib d ((k, e) # kws) st =
     (case eval_expr lib d e st of
        (Inl a, st1) \<Rightarrow> (Inl a, st1)
      | (Inr v, st1) \<Rightarrow>
          (case eval_kwargs lib d kws st1 of
             (Inl a, st2) \<Rightarrow> (Inl a, st2)
           | (Inr kvs, st2) \<Rightarrow> (Inr ((k, v) # kvs), st2)))"
| "eval_items lib d [] acc st = (Inr (VDict acc), st)"
| "eval_items lib d ((ke, ve) # items) acc st =
     (case eval_expr lib d ve st of
        (Inl a, st1) \<Rightarrow> (Inl a, st1)
      | (Inr v, st1) \<Rightarrow>
          (case eval_expr lib d ke st1 of
             (Inl a, st2) \<Rightarrow> (Inl a, st2)
           | (Inr k, st2) \<Rightarrow>
               if hashable k then eval_items lib d items (dict_set acc k v) st2
               else (Inl (Raise TypeError), st2)))"
| "exec_stmt lib d (Import m a) st =
     (case ask lib (LImport m) st of
        (Inl a', st1) \<Rightarrow> (Abort a', st1)
      | (Inr v, st1) \<Rightarrow> (Next, store_name a v st1))"
| "exec_stmt lib d (ImportFrom m ns) st =
     (case ask lib (LImport m) st of
        (Inl a, st1) \<Rightarrow> (Abort a, st1)
      | (Inr v, st1) \<Rightarrow> import_names lib v ns st1)"
| "exec_stmt lib d (Assign t e) st =
     (case eval_expr lib d e st of
        (Inl a, st1) \<Rightarrow> (Abort a, st1)
      | (Inr v, st1) \<Rightarrow>
          (case t of
             TName x \<Rightarrow> (Next, store_name x v st1)
           | TSubscript b i \<Rightarrow>
               (case eval_expr lib d b st1 of
                  (Inl a, st2) \<Rightarrow> (Abort a, st2)
                | (Inr bv, st2) \<Rightarrow>
                    (case eval_expr lib d i st2 of
                       (Inl a, st3) \<Rightarrow> (Abort a, st3)
                     | (Inr iv, st3) \<Rightarrow> py_setitem lib bv iv v st3))))"
| "exec_stmt lib d (ExprStmt e) st =
     (case eval_expr lib d e st of
        (Inl a, st1) \<Rightarrow> (Abort a, st1)
      | (Inr v, st1) \<Rightarrow> (Next, st1))"
| "exec_stmt lib d (For x e body) st =
     (case eval_expr lib d e st of
        (Inl a, st1) \<Rightarrow> (Abort a, st1)
      | (Inr v, st1) \<Rightarrow>
          (case v of
             VList r \<Rightarrow>
               if r < length (heap st1)
               then exec_for lib d x r [0..<length (heap st1 ! r)] body st1
               else (Abort Unsupported, st1)
           | VInt n \<Rightarrow> (Abort (Raise TypeError), st1)
           | VFloat f \<Rightarrow> (Abort (Raise TypeError), st1)
           | VNone \<Rightarrow> (Abort (Raise TypeError), st1)
           | _ \<Rightarrow> (Abort Unsupported, st1)))"
| "exec_stmt lib d (FunctionDef f ps body) st =
     (if locals st = None then (Next, store_name f (VFun f ps body) st)
      else (Abort Unsupported, st))"
| "exec_stmt lib d (Return e) st =
     (if locals st = None then (Abort Unsupported, st)
      else (case eval_expr lib d e st of
              (Inl a, st1) \<Rightarrow> (Abort a, st1)
            | (Inr v, st1) \<Rightarrow> (Ret v, st1)))"
| "exec_stmt lib d (If c a b) st = (Abort Unsupported, st)"
| "exec_stmt lib d (While c body) st = (Abort Unsupported, st)"
| "exec_stmt lib d (Try body c handler) st =
     (case exec_block lib d body st of
        (Abort (Raise e), st1) \<Rightarrow>
          (case catches c e of
             Some True \<Rightarrow> exec_block lib d handler st1
           | Some False \<Rightarrow> (Abort (Raise e), st1)
           | None \<Rightarrow> (Abort Unsupported, st1))
      | (Abort Unsupported, st1) \<Rightarrow> (Abort Unsupported, st1)
      | (Next, st1) \<Rightarrow> (Next, st1)
      | (Ret v, st1) \<Rightarrow> (Ret v, st1))"
| "exec_stmt lib d (ClassDef c body) st = (Abort Unsupported, st)"
| "exec_block lib d [] st = (Next, st)"
| "exec_block lib d (s # ss) st =
     (case exec_stmt lib d s st of
        (Next, st1) \<Rightarrow> exec_block lib d ss st1
      | (Ret v, st1) \<Rightarrow> (Ret v, st1)
      | (Abort a, st1) \<Rightarrow> (Abort a, st1))"
| "exec_for lib d x r [] body st = (Next, st)"
| "exec_for lib d x r (i # is) body st =
     (if r < length (heap st) \<and> i < length (heap st ! r)
      then (case exec_block lib d body (store_name x (heap st ! r ! i) st) of
              (Next, st1) \<Rightarrow> exec_for lib d x r is body st1
            | (Ret v, st1) \<Rightarrow> (Ret v, st1)
            | (Abort a, st1) \<Rightarrow> (Abort a, st1))
      else (Next, st))"
  by pat_completeness auto
termination
  by (relation "measures
       [case_sum
          (case_sum (\<lambda>(lib, d, e, st). d)
             (case_sum (\<lambda>(lib, d, es, st). d) (\<lambda>(lib, d, kws, st). d)))
          (case_sum
             (case_sum (\<lambda>(lib, d, items, acc, st). d) (\<lambda>(lib, d, s, st). d))
             (case_sum (\<lambda>(lib, d, ss, st). d) (\<lambda>(lib, d, x, r, is, body, st). d))),
        case_sum
          (case_sum (\<lambda>(lib, d, e, st). size e)
             (case_sum (\<lambda>(lib, d, es, st). size_list size es)
                (\<lambda>(lib, d, kws, st). size_list (size_prod (\<lambda>k. 0) size) kws)))
          (case_sum
             (case_sum (\<lambda>(lib, d, items, acc, st). size_list (size_prod size size) items)
                (\<lambda>(lib, d, s, st). weight s))
             (case_sum (\<lambda>(lib, d, ss, st). weight_block ss)
                (\<lambda>(lib, d, x, r, is, body, st). Suc (weight_block body)))),
        case_sum
          (case_sum (\<lambda>(lib, d, e, st). 0)
             (case_sum (\<lambda>(lib, d, es, st). 0) (\<lambda>(lib, d, kws, st). 0)))
          (case_sum
             (case_sum (\<lambda>(lib, d, items, acc, st). 0) (\<lambda>(lib, d, s, st). 0))
             (case_sum (\<lambda>(lib, d, ss, st). 0) (\<lambda>(lib, d, x, r, is, body, st). length is)))]")
     simp_all

text \<open>
  Running a cell: its statements in order, at module level. The first statement that does
  not complete ends the run; its index (from 0) is kept with the reason, and the bindings
  made so far stay in the state, as they do in the notebook's kernel.
\<close>

datatype cell_result = Finished | Failed nat abort

fun exec_cell_from ::
  "'s library \<Rightarrow> nat \<Rightarrow> nat \<Rightarrow> stmt list \<Rightarrow> 's pystate \<Rightarrow> cell_result \<times> 's pystate" where
  "exec_cell_from lib d i [] st = (Finished, st)"
| "exec_cell_from lib d i (s # ss) st =
     (case exec_stmt lib d s st of
        (Next, st1) \<Rightarrow> exec_cell_from lib d (Suc i) ss st1
      | (Ret v, st1) \<Rightarrow> (Failed i Unsupported, st1)
      | (Abort a, st1) \<Rightarrow> (Failed i a, st1))"

definition exec_cell ::
  "'s library \<Rightarrow> nat \<Rightarrow> stmt list \<Rightarrow> 's pystate \<Rightarrow> cell_result \<times> 's pystate" where
  "exec_cell lib d c st = exec_cell_from lib d 0 c st"


section \<open>The code cells of the notebook\<close>

text \<open>Figure 1, Beta-Bernoulli program.\<close>

definition fig1_cell :: "stmt list" where
  "fig1_cell =
     [Import ''tensorflow'' ''tf'',
      ImportFrom ''edward.models'' [''Bernoulli'', ''Beta''],
      Assign (TName ''theta'')
        (Call (Name ''Beta'') [FloatLit ''1.0'', FloatLit ''1.0''] []),
      Assign (TName ''x'')
        (Call (Name ''Bernoulli'') [BinOp (Call (Attribute (Name ''tf'') ''ones'') [Num 50]
            []) Mult (Name ''theta'')] [])]"

text \<open>Figure 2, variational auto-encoder.\<close>

definition fig2_cell :: "stmt list" where
  "fig2_cell =
     [Import ''tensorflow'' ''tf'',
      ImportFrom ''edward.models'' [''Bernoulli'', ''Normal''],
      ImportFrom ''keras.layers'' [''Dense''],
      Assign (TName ''N'')
        (Num 55000),
      Assign (TName ''d'')
        (Num 50),
      Assign (TName ''z'')
        (Call (Name ''Normal'') [] [(''loc'', Call (Attribute (Name ''tf'') ''zeros'')
            [ListE [Name ''N'', Name ''d'']] []), (''scale'', Call (Attribute (Name ''tf'')
            ''ones'') [ListE [Name ''N'', Name ''d'']] [])]),
      Assign (TName ''h'')
        (Call (Call (Name ''Dense'') [Num 256] [(''activation'', Str ''relu'')]) [Name
            ''z''] []),
      Assign (TName ''x'')
        (Call (Name ''Bernoulli'') [] [(''logits'', Call (Call (Name ''Dense'') [BinOp (Num
            28) Mult (Num 28)] [(''activation'', NoneLit)]) [Name ''h''] [])]),
      Assign (TName ''qx'')
        (Call (Attribute (Name ''tf'') ''placeholder'') [Attribute (Name ''tf'')
            ''float32'', ListE [Name ''N'', BinOp (Num 28) Mult (Num 28)]] []),
      Assign (TName ''qh'')
        (Call (Call (Name ''Dense'') [Num 256] [(''activation'', Str ''relu'')]) [Name
            ''qx''] []),
      Assign (TName ''qz'')
        (Call (Name ''Normal'') [] [(''loc'', Call (Call (Name ''Dense'') [Name ''d'']
            [(''activation'', NoneLit)]) [Name ''qh''] []), (''scale'', Call (Call (Name
            ''Dense'') [Name ''d''] [(''activation'', Str ''softplus'')]) [Name ''qh'']
            [])])]"

text \<open>Figure 3, Bayesian recurrent neural network.\<close>

definition fig3_cell :: "stmt list" where
  "fig3_cell =
     [Import ''edward'' ''ed'',
      Import ''tensorflow'' ''tf'',
      ImportFrom ''edward.models'' [''Normal''],
      Assign (TName ''H'')
        (Num 50),
      Assign (TName ''D'')
        (Num 10),
      FunctionDef ''rnn_cell'' [''hprev'', ''xt'']
        [Return (Call (Attribute (Name ''tf'') ''tanh'') [BinOp (BinOp (Call (Attribute
            (Name ''ed'') ''dot'') [Name ''hprev'', Name ''Wh''] []) Add (Call (Attribute
            (Name ''ed'') ''dot'') [Name ''xt'', Name ''Wx''] [])) Add (Name ''bh'')] [])],
      Assign (TName ''Wh'')
        (Call (Name ''Normal'') [] [(''loc'', Call (Attribute (Name ''tf'') ''zeros'')
            [ListE [Name ''H'', Name ''H'']] []), (''scale'', Call (Attribute (Name ''tf'')
            ''ones'') [ListE [Name ''H'', Name ''H'']] [])]),
      Assign (TName ''Wx'')
        (Call (Name ''Normal'') [] [(''loc'', Call (Attribute (Name ''tf'') ''zeros'')
            [ListE [Name ''D'', Name ''H'']] []), (''scale'', Call (Attribute (Name ''tf'')
            ''ones'') [ListE [Name ''D'', Name ''H'']] [])]),
      Assign (TName ''Wy'')
        (Call (Name ''Normal'') [] [(''loc'', Call (Attribute (Name ''tf'') ''zeros'')
            [ListE [Name ''H'', Num 1]] []), (''scale'', Call (Attribute (Name ''tf'')
            ''ones'') [ListE [Name ''H'', Num 1]] [])]),
      Assign (TName ''bh'')
        (Call (Name ''Normal'') [] [(''loc'', Call (Attribute (Name ''tf'') ''zeros'')
            [Name ''H''] []), (''scale'', Call (Attribute (Name ''tf'') ''ones'') [Name
            ''H''] [])]),
      Assign (TName ''by'')
        (Call (Name ''Normal'') [] [(''loc'', Call (Attribute (Name ''tf'') ''zeros'') [Num
            1] []), (''scale'', Call (Attribute (Name ''tf'') ''ones'') [Num 1] [])]),
      Assign (TName ''x'')
        (Call (Attribute (Name ''tf'') ''placeholder'') [Attribute (Name ''tf'')
            ''float32'', ListE [NoneLit, Name ''D'']] []),
      Assign (TName ''h'')
        (Call (Attribute (Name ''tf'') ''scan'') [Name ''rnn_cell'', Name ''x'']
            [(''initializer'', Call (Attribute (Name ''tf'') ''zeros'') [Name ''H''] [])]),
      Assign (TName ''y'')
        (Call (Name ''Normal'') [] [(''loc'', BinOp (Call (Attribute (Name ''tf'')
            ''matmul'') [Name ''h'', Name ''Wy''] []) Add (Name ''by'')), (''scale'',
            FloatLit ''1.0'')])]"

text \<open>Figure 5, hierarchical model.\<close>

definition fig5_cell :: "stmt list" where
  "fig5_cell =
     [Import ''tensorflow'' ''tf'',
      ImportFrom ''edward.models'' [''Categorical'', ''Normal''],
      Assign (TName ''N'')
        (Num 10000),
      Assign (TName ''D'')
        (Num 2),
      Assign (TName ''K'')
        (Num 5),
      Assign (TName ''beta'')
        (Call (Name ''Normal'') [] [(''loc'', Call (Attribute (Name ''tf'') ''zeros'')
            [ListE [Name ''K'', Name ''D'']] []), (''scale'', Call (Attribute (Name ''tf'')
            ''ones'') [ListE [Name ''K'', Name ''D'']] [])]),
      Assign (TName ''z'')
        (Call (Name ''Categorical'') [] [(''logits'', Call (Attribute (Name ''tf'')
            ''zeros'') [ListE [Name ''N'', Name ''K'']] [])]),
      Assign (TName ''x'')
        (Call (Name ''Normal'') [] [(''loc'', Call (Attribute (Name ''tf'') ''gather'')
            [Name ''beta'', Name ''z''] []), (''scale'', Call (Attribute (Name ''tf'')
            ''ones'') [ListE [Name ''N'', Name ''D'']] [])])]"

text \<open>Figure 6 (left), variational inference.\<close>

definition fig6_left_cell :: "stmt list" where
  "fig6_left_cell =
     [Import ''edward'' ''ed'',
      Import ''numpy'' ''np'',
      Import ''tensorflow'' ''tf'',
      ImportFrom ''edward.models'' [''Categorical'', ''Normal''],
      Assign (TName ''x_train'')
        (Call (Attribute (Name ''np'') ''zeros'') [ListE [Name ''N'', Name ''D'']] []),
      Assign (TName ''qbeta'')
        (Call (Name ''Normal'') [] [(''loc'', Call (Attribute (Name ''tf'') ''Variable'')
            [Call (Attribute (Name ''tf'') ''zeros'') [ListE [Name ''K'', Name ''D'']] []]
            []), (''scale'', Call (Attribute (Name ''tf'') ''exp'') [Call (Attribute (Name
            ''tf'') ''Variable'') [Call (Attribute (Name ''tf'') ''zeros'') [ListE [Name
            ''K'', Name ''D'']] []] []] [])]),
      Assign (TName ''qz'')
        (Call (Name ''Categorical'') [] [(''logits'', Call (Attribute (Name ''tf'')
            ''Variable'') [Call (Attribute (Name ''tf'') ''zeros'') [ListE [Name ''N'',
            Name ''K'']] []] [])]),
      Assign (TName ''inference'')
        (Call (Attribute (Name ''ed'') ''VariationalInference'') [DictE [(Name ''beta'',
            Name ''qbeta''), (Name ''z'', Name ''qz'')]] [(''data'', DictE [(Name ''x'',
            Name ''x_train'')])])]"

text \<open>Figure 6 (right), Monte Carlo.\<close>

definition fig6_right_cell :: "stmt list" where
  "fig6_right_cell =
     [Import ''edward'' ''ed'',
      Import ''numpy'' ''np'',
      Import ''tensorflow'' ''tf'',
      ImportFrom ''edward.models'' [''Empirical''],
      Assign (TName ''x_train'')
        (Call (Attribute (Name ''np'') ''zeros'') [ListE [Name ''N'', Name ''D'']] []),
      Assign (TName ''T'')
        (Num 10000),
      Assign (TName ''qbeta'')
        (Call (Name ''Empirical'') [] [(''params'', Call (Attribute (Name ''tf'')
            ''Variable'') [Call (Attribute (Name ''tf'') ''zeros'') [ListE [Name ''T'',
            Name ''K'', Name ''D'']] []] [])]),
      Assign (TName ''qz'')
        (Call (Name ''Empirical'') [] [(''params'', Call (Attribute (Name ''tf'')
            ''Variable'') [Call (Attribute (Name ''tf'') ''zeros'') [ListE [Name ''T'',
            Name ''N'']] []] [])])]"

text \<open>Figure 7, generative adversarial network.\<close>

definition fig7_cell :: "stmt list" where
  "fig7_cell =
     [Import ''edward'' ''ed'',
      Import ''numpy'' ''np'',
      Import ''tensorflow'' ''tf'',
      ImportFrom ''edward.models'' [''Normal''],
      ImportFrom ''keras.layers'' [''Dense''],
      Assign (TName ''N'')
        (Num 55000),
      Assign (TName ''d'')
        (Num 50),
      FunctionDef ''generative_network'' [''eps'']
        [Assign (TName ''h'')
           (Call (Call (Name ''Dense'') [Num 256] [(''activation'', Str ''relu'')]) [Name
               ''eps''] []),
         Return (Call (Call (Name ''Dense'') [BinOp (Num 28) Mult (Num 28)]
             [(''activation'', NoneLit)]) [Name ''h''] [])],
      FunctionDef ''discriminative_network'' [''x'']
        [Assign (TName ''h'')
           (Call (Call (Name ''Dense'') [BinOp (Num 28) Mult (Num 28)] [(''activation'',
               Str ''relu'')]) [Name ''x''] []),
         Return (Call (Call (Name ''Dense'') [Num 1] [(''activation'', NoneLit)]) [Name
             ''h''] [])],
      Assign (TName ''x_train'')
        (Call (Attribute (Name ''np'') ''zeros'') [ListE [Name ''N'', BinOp (Num 28) Mult
            (Num 28)]] []),
      Assign (TName ''eps'')
        (Call (Name ''Normal'') [] [(''loc'', Call (Attribute (Name ''tf'') ''zeros'')
            [ListE [Name ''N'', Name ''d'']] []), (''scale'', Call (Attribute (Name ''tf'')
            ''ones'') [ListE [Name ''N'', Name ''d'']] [])]),
      Assign (TName ''x'')
        (Call (Name ''generative_network'') [Name ''eps''] []),
      Assign (TName ''inference'')
        (Call (Attribute (Name ''ed'') ''GANInference'') [] [(''data'', DictE [(Name ''x'',
            Name ''x_train'')]), (''discriminator'', Name ''discriminative_network'')])]"

text \<open>Figure *, variational EM.\<close>

definition variational_em_cell :: "stmt list" where
  "variational_em_cell =
     [Import ''edward'' ''ed'',
      Import ''numpy'' ''np'',
      Import ''tensorflow'' ''tf'',
      ImportFrom ''edward.models'' [''Categorical'', ''PointMass''],
      Assign (TName ''x_train'')
        (Call (Attribute (Name ''np'') ''zeros'') [ListE [Name ''N'', Name ''D'']] []),
      Assign (TName ''qbeta'')
        (Call (Name ''PointMass'') [] [(''params'', Call (Attribute (Name ''tf'')
            ''Variable'') [Call (Attribute (Name ''tf'') ''zeros'') [ListE [Name ''K'',
            Name ''D'']] []] [])]),
      Assign (TName ''qz'')
        (Call (Name ''Categorical'') [] [(''logits'', Call (Attribute (Name ''tf'')
            ''Variable'') [Call (Attribute (Name ''tf'') ''zeros'') [ListE [Name ''N'',
            Name ''K'']] []] [])]),
      Assign (TName ''inference_e'')
        (Call (Attribute (Name ''ed'') ''VariationalInference'') [DictE [(Name ''z'', Name
            ''qz'')]] [(''data'', DictE [(Name ''x'', Name ''x_train''), (Name ''beta'',
            Name ''qbeta'')])]),
      Assign (TName ''inference_m'')
        (Call (Attribute (Name ''ed'') ''MAP'') [DictE [(Name ''beta'', Name ''qbeta'')]]
            [(''data'', DictE [(Name ''x'', Name ''x_train''), (Name ''z'', Name
            ''qz'')])]),
      ExprStmt (Call (Attribute (Name ''inference_e'') ''initialize'') [] []),
      ExprStmt (Call (Attribute (Name ''inference_m'') ''initialize'') [] []),
      ExprStmt (Call (Attribute (Call (Attribute (Name ''tf'')
          ''initialize_all_variables'') [] []) ''run'') [] []),
      For ''_'' (Call (Name ''range'') [Num 10000] [])
        [ExprStmt (Call (Attribute (Name ''inference_e'') ''update'') [] []),
         ExprStmt (Call (Attribute (Name ''inference_m'') ''update'') [] [])]]"

text \<open>Figure *, data subsampling.\<close>

definition subsampling_cell :: "stmt list" where
  "subsampling_cell =
     [Import ''edward'' ''ed'',
      Import ''tensorflow'' ''tf'',
      ImportFrom ''edward.models'' [''Categorical'', ''Normal''],
      Assign (TName ''N'')
        (Num 10000),
      Assign (TName ''M'')
        (Num 128),
      Assign (TName ''D'')
        (Num 2),
      Assign (TName ''K'')
        (Num 5),
      Assign (TName ''x_batch'')
        (Call (Attribute (Name ''tf'') ''placeholder'') [Attribute (Name ''tf'')
            ''float32'', ListE [Name ''M'', Name ''D'']] []),
      Assign (TName ''beta'')
        (Call (Name ''Normal'') [] [(''loc'', Call (Attribute (Name ''tf'') ''zeros'')
            [ListE [Name ''K'', Name ''D'']] []), (''scale'', Call (Attribute (Name ''tf'')
            ''ones'') [ListE [Name ''K'', Name ''D'']] [])]),
      Assign (TName ''z'')
        (Call (Name ''Categorical'') [] [(''logits'', Call (Attribute (Name ''tf'')
            ''zeros'') [ListE [Name ''M'', Name ''K'']] [])]),
      Assign (TName ''x'')
        (Call (Name ''Normal'') [] [(''loc'', Call (Attribute (Name ''tf'') ''gather'')
            [Name ''beta'', Name ''z''] []), (''scale'', Call (Attribute (Name ''tf'')
            ''ones'') [ListE [Name ''M'', Name ''D'']] [])]),
      Assign (TName ''qbeta'')
        (Call (Name ''Normal'') [] [(''loc'', Call (Attribute (Name ''tf'') ''Variable'')
            [Call (Attribute (Name ''tf'') ''zeros'') [ListE [Name ''K'', Name ''D'']] []]
            []), (''scale'', Call (Attribute (Attribute (Name ''tf'') ''nn'') ''softplus'')
            [Call (Attribute (Name ''tf'') ''Variable'') [Call (Attribute (Name ''tf'')
            ''zeros'') [ListE [Name ''K'', Name ''D'']] []] []] [])]),
      Assign (TName ''qz'')
        (Call (Name ''Categorical'') [] [(''logits'', Call (Attribute (Name ''tf'')
            ''Variable'') [Call (Attribute (Name ''tf'') ''zeros'') [ListE [Name ''M'',
            Name ''D'']] []] [])]),
      Assign (TName ''inference'')
        (Call (Attribute (Name ''ed'') ''VariationalInference'') [DictE [(Name ''beta'',
            Name ''qbeta''), (Name ''z'', Name ''qz'')]] [(''data'', DictE [(Name ''x'',
            Name ''x_batch'')])]),
      ExprStmt (Call (Attribute (Name ''inference'') ''initialize'') [] [(''scale'', DictE
          [(Name ''x'', BinOp (Call (Name ''float'') [Name ''N''] []) Div (Name ''M'')),
          (Name ''z'', BinOp (Call (Name ''float'') [Name ''N''] []) Div (Name ''M''))])])]"

text \<open>Figure 9, Bayesian logistic regression.\<close>

definition fig9_cell :: "stmt list" where
  "fig9_cell =
     [Import ''edward'' ''ed'',
      Import ''numpy'' ''np'',
      Import ''tensorflow'' ''tf'',
      ImportFrom ''edward.models'' [''Bernoulli'', ''Empirical'', ''Normal''],
      Assign (TName ''N'')
        (Num 581012),
      Assign (TName ''D'')
        (Num 54),
      Assign (TName ''T'')
        (Num 100),
      Assign (TName ''x_data'')
        (Call (Attribute (Name ''np'') ''zeros'') [ListE [Name ''N'', Name ''D'']] []),
      Assign (TName ''y_data'')
        (Call (Attribute (Name ''np'') ''zeros'') [ListE [Name ''N'']] []),
      Assign (TName ''x'')
        (Call (Attribute (Name ''tf'') ''Variable'') [Name ''x_data''] [(''trainable'',
            Name ''False'')]),
      Assign (TName ''beta'')
        (Call (Name ''Normal'') [] [(''loc'', Call (Attribute (Name ''tf'') ''zeros'')
            [Name ''D''] []), (''scale'', Call (Attribute (Name ''tf'') ''ones'') [Name
            ''D''] [])]),
      Assign (TName ''y'')
        (Call (Name ''Bernoulli'') [] [(''logits'', Call (Attribute (Name ''ed'') ''dot'')
            [Name ''x'', Name ''beta''] [])]),
      Assign (TName ''qbeta'')
        (Call (Name ''Empirical'') [] [(''params'', Call (Attribute (Name ''tf'')
            ''Variable'') [Call (Attribute (Name ''tf'') ''zeros'') [ListE [Name ''T'',
            Name ''D'']] []] [])]),
      Assign (TName ''inference'')
        (Call (Attribute (Name ''ed'') ''HMC'') [DictE [(Name ''beta'', Name ''qbeta'')]]
            [(''data'', DictE [(Name ''y'', Name ''y_data'')])]),
      ExprStmt (Call (Attribute (Name ''inference'') ''run'') [] [(''step_size'', BinOp
          (FloatLit ''0.5'') Div (Name ''N'')), (''n_steps'', Num 10)])]"

text \<open>Figure 10, Bayesian neural network.\<close>

definition fig10_cell :: "stmt list" where
  "fig10_cell =
     [Import ''tensorflow'' ''tf'',
      ImportFrom ''edward.models'' [''Bernoulli'', ''Normal''],
      Assign (TName ''N'')
        (Num 1000),
      Assign (TName ''D'')
        (Num 528),
      Assign (TName ''H'')
        (Num 256),
      Assign (TName ''W_0'')
        (Call (Name ''Normal'') [] [(''loc'', Call (Attribute (Name ''tf'') ''zeros'')
            [ListE [Name ''D'', Name ''H'']] []), (''scale'', Call (Attribute (Name ''tf'')
            ''ones'') [ListE [Name ''D'', Name ''H'']] [])]),
      Assign (TName ''W_1'')
        (Call (Name ''Normal'') [] [(''loc'', Call (Attribute (Name ''tf'') ''zeros'')
            [ListE [Name ''H'', Num 1]] []), (''scale'', Call (Attribute (Name ''tf'')
            ''ones'') [ListE [Name ''H'', Num 1]] [])]),
      Assign (TName ''b_0'')
        (Call (Name ''Normal'') [] [(''loc'', Call (Attribute (Name ''tf'') ''zeros'')
            [Name ''H''] []), (''scale'', Call (Attribute (Name ''tf'') ''ones'') [Name
            ''H''] [])]),
      Assign (TName ''b_1'')
        (Call (Name ''Normal'') [] [(''loc'', Call (Attribute (Name ''tf'') ''zeros'') [Num
            1] []), (''scale'', Call (Attribute (Name ''tf'') ''ones'') [Num 1] [])]),
      Assign (TName ''x'')
        (Call (Attribute (Name ''tf'') ''placeholder'') [Attribute (Name ''tf'')
            ''float32'', ListE [Name ''N'', Name ''D'']] []),
      Assign (TName ''y'')
        (Call (Name ''Bernoulli'') [] [(''logits'', BinOp (Call (Attribute (Name ''tf'')
            ''matmul'') [Call (Attribute (Attribute (Name ''tf'') ''nn'') ''tanh'') [BinOp
            (Call (Attribute (Name ''tf'') ''matmul'') [Name ''x'', Name ''W_0''] []) Add
            (Name ''b_0'')] [], Name ''W_1''] []) Add (Name ''b_1''))])]"

text \<open>Figure 11, latent Dirichlet allocation.\<close>

definition fig11_cell :: "stmt list" where
  "fig11_cell =
     [Import ''tensorflow'' ''tf'',
      ImportFrom ''edward.models'' [''Categorical'', ''Dirichlet''],
      Assign (TName ''D'')
        (Num 4),
      Assign (TName ''N'')
        (ListE [Num 11502, Num 213, Num 1523, Num 1351]),
      Assign (TName ''K'')
        (Num 10),
      Assign (TName ''V'')
        (Num 100000),
      Assign (TName ''theta'')
        (Call (Name ''Dirichlet'') [BinOp (Call (Attribute (Name ''tf'') ''zeros'') [ListE
            [Name ''D'', Name ''K'']] []) Add (FloatLit ''0.1'')] []),
      Assign (TName ''phi'')
        (Call (Name ''Dirichlet'') [BinOp (Call (Attribute (Name ''tf'') ''zeros'') [ListE
            [Name ''K'', Name ''V'']] []) Add (FloatLit ''0.05'')] []),
      Assign (TName ''z'')
        (BinOp (ListE [BinOp (ListE [Num 0]) Mult (Name ''N'')]) Mult (Name ''D'')),
      Assign (TName ''w'')
        (BinOp (ListE [BinOp (ListE [Num 0]) Mult (Name ''N'')]) Mult (Name ''D'')),
      For ''d'' (Call (Name ''range'') [Name ''D''] [])
        [For ''n'' (Call (Name ''range'') [Subscript (Name ''N'') (Name ''d'')] [])
           [Assign (TSubscript (Subscript (Name ''z'') (Name ''d'')) (Name ''n''))
              (Call (Name ''Categorical'') [Subscript (Name ''theta'') (TupleE [Name ''d'',
                  SliceAll])] []),
            Assign (TSubscript (Subscript (Name ''w'') (Name ''d'')) (Name ''n''))
              (Call (Name ''Categorical'') [Subscript (Name ''phi'') (TupleE [Subscript
                  (Subscript (Name ''z'') (Name ''d'')) (Name ''n''), SliceAll])] [])]]]"

text \<open>Figure 12, Gaussian matrix factorization.\<close>

definition fig12_cell :: "stmt list" where
  "fig12_cell =
     [Import ''tensorflow'' ''tf'',
      ImportFrom ''edward.models'' [''Normal''],
      Assign (TName ''N'')
        (Num 10),
      Assign (TName ''M'')
        (Num 10),
      Assign (TName ''K'')
        (Num 5),
      Assign (TName ''U'')
        (Call (Name ''Normal'') [] [(''loc'', Call (Attribute (Name ''tf'') ''zeros'')
            [ListE [Name ''M'', Name ''K'']] []), (''scale'', Call (Attribute (Name ''tf'')
            ''ones'') [ListE [Name ''M'', Name ''K'']] [])]),
      Assign (TName ''V'')
        (Call (Name ''Normal'') [] [(''loc'', Call (Attribute (Name ''tf'') ''zeros'')
            [ListE [Name ''N'', Name ''K'']] []), (''scale'', Call (Attribute (Name ''tf'')
            ''ones'') [ListE [Name ''N'', Name ''K'']] [])]),
      Assign (TName ''Y'')
        (Call (Name ''Normal'') [] [(''loc'', Call (Attribute (Name ''tf'') ''matmul'')
            [Name ''U'', Name ''V''] [(''transpose_b'', Name ''True'')]), (''scale'', Call
            (Attribute (Name ''tf'') ''ones'') [ListE [Name ''N'', Name ''M'']] [])])]"

text \<open>Figure 13, Dirichlet process mixture model.\<close>

definition fig13_cell :: "stmt list" where
  "fig13_cell =
     [Import ''tensorflow'' ''tf'',
      ImportFrom ''edward.models'' [''DirichletProcess'', ''Normal''],
      Assign (TName ''N'')
        (Num 1000),
      Assign (TName ''D'')
        (Num 5),
      Assign (TName ''dp'')
        (Call (Name ''DirichletProcess'') [] [(''alpha'', FloatLit ''1.0''), (''base'',
            Call (Name ''Normal'') [] [(''loc'', Call (Attribute (Name ''tf'') ''zeros'')
            [Name ''D''] []), (''scale'', Call (Attribute (Name ''tf'') ''ones'') [Name
            ''D''] [])])]),
      Assign (TName ''mu'')
        (Call (Attribute (Name ''dp'') ''sample'') [Name ''N''] []),
      Assign (TName ''x'')
        (Call (Name ''Normal'') [] [(''loc'', Name ''loc''), (''scale'', Call (Attribute
            (Name ''tf'') ''ones'') [ListE [Name ''N'', Name ''D'']] [])])]"

definition code_cells :: "stmt list list" where
  "code_cells =
     [fig1_cell, fig2_cell, fig3_cell, fig5_cell,
      fig6_left_cell, fig6_right_cell, fig7_cell, variational_em_cell,
      subsampling_cell, fig9_cell, fig10_cell, fig11_cell,
      fig12_cell, fig13_cell]"

text \<open>
  A library in which every import, attribute access, call and operator succeeds and
  returns a new object; it serves to run the cells on a concrete input.
\<close>

definition obliging :: "nat library" where
  "obliging req st = (Inr (VObj (libst st)), Suc (libst st))"

section \<open>The text of the cells\<close>

text \<open>Every statement of a block, with the statements nested in it.\<close>

fun substmts :: "stmt \<Rightarrow> stmt list" and substmts_block :: "stmt list \<Rightarrow> stmt list" where
  "substmts (Import m a) = [Import m a]"
| "substmts (ImportFrom m ns) = [ImportFrom m ns]"
| "substmts (Assign t e) = [Assign t e]"
| "substmts (ExprStmt e) = [ExprStmt e]"
| "substmts (For x e body) = For x e body # substmts_block body"
| "substmts (FunctionDef f ps body) = FunctionDef f ps body # substmts_block body"
| "substmts (Return e) = [Return e]"
| "substmts (If c a b) = If c a b # substmts_block a @ substmts_block b"
| "substmts (While c body) = While c body # substmts_block body"
| "substmts (Try body c handler) =
     Try body c handler # substmts_block body @ substmts_block handler"
| "substmts (ClassDef c body) = ClassDef c body # substmts_block body"
| "substmts_block [] = []"
| "substmts_block (s # ss) = substmts s @ substmts_block ss"

fun is_import :: "stmt \<Rightarrow> bool" where
  "is_import (Import m a) = True"
| "is_import (ImportFrom m ns) = True"
| "is_import s = False"

fun is_for :: "stmt \<Rightarrow> bool" where
  "is_for (For x e body) = True"
| "is_for s = False"





fun def_name :: "stmt \<Rightarrow> string option" where
  "def_name (FunctionDef f ps body) = Some f"
| "def_name s = None"

fun import_module :: "stmt \<Rightarrow> string option" where
  "import_module (Import m a) = Some m"
| "import_module (ImportFrom m ns) = Some m"
| "import_module s = None"


definition defined_functions :: "stmt list \<Rightarrow> string list" where
  "defined_functions c = List.map_filter def_name (substmts_block c)"

definition imported :: "stmt list \<Rightarrow> string list" where
  "imported c = binds_block (filter is_import (substmts_block c))"

definition modules :: "stmt list \<Rightarrow> string list" where
  "modules c = List.map_filter import_module (substmts_block c)"

text \<open>Every expression of a cell, with its subexpressions.\<close>

fun subexprs :: "expr \<Rightarrow> expr list" where
  "subexprs (ListE es) = ListE es # concat (map subexprs es)"
| "subexprs (TupleE es) = TupleE es # concat (map subexprs es)"
| "subexprs (DictE items) =
     DictE items # concat (map (\<lambda>kv. subexprs (fst kv) @ subexprs (snd kv)) items)"
| "subexprs (BinOp l op r) = BinOp l op r # subexprs l @ subexprs r"
| "subexprs (Attribute e a) = Attribute e a # subexprs e"
| "subexprs (Subscript e i) = Subscript e i # subexprs e @ subexprs i"
| "subexprs (Call f args kws) =
     Call f args kws # subexprs f @ concat (map subexprs args)
       @ concat (map (\<lambda>kw. subexprs (snd kw)) kws)"
| "subexprs e = [e]"

fun stmt_exprs :: "stmt \<Rightarrow> expr list" where
  "stmt_exprs (Assign (TName x) e) = [e]"
| "stmt_exprs (Assign (TSubscript b i) e) = [e, b, i]"
| "stmt_exprs (ExprStmt e) = [e]"
| "stmt_exprs (For x e body) = [e]"
| "stmt_exprs (Return e) = [e]"
| "stmt_exprs (If c a b) = [c]"
| "stmt_exprs (While c body) = [c]"
| "stmt_exprs s = []"

definition cell_exprs :: "stmt list \<Rightarrow> expr list" where
  "cell_exprs c = concat (map subexprs (concat (map stmt_exprs (substmts_block c))))"

text \<open>
  The callee of every call of a cell, the name a callee starts from
  (\<^verbatim>\<open>tf\<close> in \<^verbatim>\<open>tf.nn.softplus(...)\<close>, \<^verbatim>\<open>Dense\<close> in \<^verbatim>\<open>Dense(256)(z)\<close>) and
  its dotted path.
\<close>

fun callee_of :: "expr \<Rightarrow> expr option" where
  "callee_of (Call f args kws) = Some f"
| "callee_of e = None"

definition callees :: "stmt list \<Rightarrow> expr list" where
  "callees c = List.map_filter callee_of (cell_exprs c)"

fun callee_root :: "expr \<Rightarrow> string" where
  "callee_root (Name x) = x"
| "callee_root (Attribute e a) = callee_root e"
| "callee_root (Call f args kws) = callee_root f"
| "callee_root (Subscript e i) = callee_root e"
| "callee_root e = []"

fun callee_path :: "expr \<Rightarrow> string" where
  "callee_path (Name x) = x"
| "callee_path (Attribute e a) = callee_path e @ ''.'' @ a"
| "callee_path (Call f args kws) = callee_path f @ ''()''"
| "callee_path e = ''?''"

text \<open>
  The names a cell binds, at module level, to the result of a call that starts from a
  name it imports: the library objects it keeps (\<^verbatim>\<open>dp\<close>, \<^verbatim>\<open>inference\<close>, ...).
\<close>

fun library_result :: "string list \<Rightarrow> stmt \<Rightarrow> string option" where
  "library_result imps (Assign (TName x) (Call f args kws)) =
     (if callee_root f \<in> set imps then Some x else None)"
| "library_result imps s = None"

definition library_objects :: "stmt list \<Rightarrow> string list" where
  "library_objects c = List.map_filter (library_result (imported c)) c"

text \<open>
  The names a cell reads from the module namespace: every name in an expression, except,
  in a function body, the parameters and the names the body assigns.
\<close>

fun expr_names :: "expr \<Rightarrow> string list" where
  "expr_names (Name x) = [x]"
| "expr_names e = []"

definition names_in :: "expr list \<Rightarrow> string list" where
  "names_in es = concat (map expr_names (concat (map subexprs es)))"

fun reads :: "stmt \<Rightarrow> string list" and reads_block :: "stmt list \<Rightarrow> string list" where
  "reads (Import m a) = []"
| "reads (ImportFrom m ns) = []"
| "reads (Assign t e) = names_in (stmt_exprs (Assign t e))"
| "reads (ExprStmt e) = names_in [e]"
| "reads (For x e body) = names_in [e] @ reads_block body"
| "reads (FunctionDef f ps body) =
     filter (\<lambda>x. x \<notin> set (ps @ binds_block body)) (reads_block body)"
| "reads (Return e) = names_in [e]"
| "reads (If c a b) = names_in [c] @ reads_block a @ reads_block b"
| "reads (While c body) = names_in [c] @ reads_block body"
| "reads (Try body c handler) = reads_block body @ reads_block handler"
| "reads (ClassDef c body) = reads_block body"
| "reads_block [] = []"
| "reads_block (s # ss) = reads s @ reads_block ss"


text \<open>
  The callees of a cell that start neither from a name the cell imports nor from a
  library object it has bound, by the name they start from.
\<close>

definition other_callees :: "stmt list \<Rightarrow> string list" where
  "other_callees c =
     filter (\<lambda>x. x \<notin> set (imported c @ library_objects c))
       (map callee_root (callees c))"



section \<open>Which bindings a run can change\<close>

text \<open>
  Evaluating an expression leaves the module namespace and the local frame as they were.
  Executing statements at module level changes at most the names the statements bind and
  unbinds nothing; inside a function it changes local names only.
\<close>

definition same_names :: "'s pystate \<Rightarrow> 's pystate \<Rightarrow> bool" where
  "same_names st st' = (globals st' = globals st \<and> locals st' = locals st)"

definition frame :: "string list \<Rightarrow> 's pystate \<Rightarrow> 's pystate \<Rightarrow> bool" where
  "frame bs st st' =
     (case locals st of
        None \<Rightarrow> locals st' = None \<and> (\<forall>x. x \<notin> set bs \<longrightarrow> globals st' x = globals st x)
                 \<and> (\<forall>x. globals st x \<noteq> None \<longrightarrow> globals st' x \<noteq> None)
      | Some (ns, l) \<Rightarrow> globals st' = globals st \<and> (\<exists>l'. locals st' = Some (ns, l')))"

text \<open>
  Cells run one after the other in the same interpreter, each to its end or to its
  first failure, in any order and any number of times.
\<close>

definition run_cells :: "'s library \<Rightarrow> nat \<Rightarrow> stmt list list \<Rightarrow> 's pystate \<Rightarrow> 's pystate" where
  "run_cells lib d cs st = foldl (\<lambda>st c. snd (exec_cell lib d c st)) st cs"

text \<open>The statements that bind every name they mention when they complete.\<close>

fun simple_binder :: "stmt \<Rightarrow> bool" where
  "simple_binder (Import m a) = True"
| "simple_binder (ImportFrom m ns) = True"
| "simple_binder (Assign (TName x) e) = True"
| "simple_binder (FunctionDef f ps body) = True"
| "simple_binder s = False"

text \<open>
  To observe what a run asks of the library and what the library answers, the library is
  wrapped so that it records every request with its answer, in order, next to its own
  state.
\<close>

type_synonym log = "(libreq \<times> (exn + val)) list"

definition unlogged :: "('s \<times> log) pystate \<Rightarrow> 's pystate" where
  "unlogged st = \<lparr>globals = globals st, locals = locals st, heap = heap st,
                  libst = fst (libst st)\<rparr>"

definition logged :: "'s library \<Rightarrow> ('s \<times> log) library" where
  "logged lib req st =
     (case lib req (unlogged st) of (r, s) \<Rightarrow> (r, (s, snd (libst st) @ [(req, r)])))"

definition requests :: "('s \<times> log) pystate \<Rightarrow> libreq list" where
  "requests st = map fst (snd (libst st))"

definition answers :: "('s \<times> log) pystate \<Rightarrow> (exn + val) list" where
  "answers st = map snd (snd (libst st))"

text \<open>
  One round of the variational EM loop, as the library sees it: the method
  \<^verbatim>\<open>update\<close> of the first inference object is fetched and called without
  arguments, then that of the second.
\<close>

definition em_round :: "nat \<Rightarrow> nat \<Rightarrow> val \<times> val \<Rightarrow> libreq list" where
  "em_round e m u =
     [LGetAttr (VObj e) ''update'', LCall (fst u) [] [],
      LGetAttr (VObj m) ''update'', LCall (snd u) [] []]"

text \<open>The body of the loop of the variational EM cell.\<close>

definition em_body :: "stmt list" where
  "em_body = [ExprStmt (Call (Attribute (Name ''inference_e'') ''update'') [] []),
              ExprStmt (Call (Attribute (Name ''inference_m'') ''update'') [] [])]"

text \<open>The loops of a block with their nesting depth: 0 for a loop that is in no other.\<close>

fun nested_loops :: "nat \<Rightarrow> stmt \<Rightarrow> (nat \<times> expr) list"
  and nested_loops_block :: "nat \<Rightarrow> stmt list \<Rightarrow> (nat \<times> expr) list" where
  "nested_loops k (Import m a) = []"
| "nested_loops k (ImportFrom m ns) = []"
| "nested_loops k (Assign t e) = []"
| "nested_loops k (ExprStmt e) = []"
| "nested_loops k (For x e body) = (k, e) # nested_loops_block (Suc k) body"
| "nested_loops k (FunctionDef f ps body) = nested_loops_block k body"
| "nested_loops k (Return e) = []"
| "nested_loops k (If c a b) = nested_loops_block k a @ nested_loops_block k b"
| "nested_loops k (While c body) = nested_loops_block (Suc k) body"
| "nested_loops k (Try body c handler) =
     nested_loops_block k body @ nested_loops_block k handler"
| "nested_loops k (ClassDef c body) = nested_loops_block k body"
| "nested_loops_block k [] = []"
| "nested_loops_block k (s # ss) = nested_loops k s @ nested_loops_block k ss"

text \<open>
  An operation (operator, subscript, call, attribute) starts from the library when the
  name it starts from is one of \<open>ns\<close>, the names the cell imports or has bound to library
  objects; an operator does when one of its operands does. The other operations are the
  cell's own: Python carries them out itself, or they call a function that is not the
  library's.
\<close>

fun library_rooted :: "string list \<Rightarrow> expr \<Rightarrow> bool" where
  "library_rooted ns (Name x) = (x \<in> set ns)"
| "library_rooted ns (Attribute e a) = library_rooted ns e"
| "library_rooted ns (Call f args kws) = library_rooted ns f"
| "library_rooted ns (Subscript e i) = library_rooted ns e"
| "library_rooted ns (BinOp l op r) = (library_rooted ns l \<or> library_rooted ns r)"
| "library_rooted ns e = False"

fun is_operation :: "expr \<Rightarrow> bool" where
  "is_operation (BinOp l op r) = True"
| "is_operation (Subscript e i) = True"
| "is_operation (Call f args kws) = True"
| "is_operation (Attribute e a) = True"
| "is_operation e = False"

fun subscript_target :: "stmt \<Rightarrow> expr option" where
  "subscript_target (Assign (TSubscript b i) e) = Some (Subscript b i)"
| "subscript_target s = None"

definition own_operations :: "stmt list \<Rightarrow> expr list" where
  "own_operations c =
     filter (\<lambda>e. if is_operation e
                 then \<not> library_rooted (imported c @ library_objects c) e else False)
       (cell_exprs c @ List.map_filter subscript_target (substmts_block c))"

text \<open>
  What the interpreter keeps of the library's answers. A statement is free of handlers
  when neither it nor any statement nested in it is a \<^verbatim>\<open>try\<close>; a value is when the
  body of every function in it is. The handles of a value are the library objects in
  it, and a value is accounted for by a list of answers when it is free of handlers and
  each of its handles occurs in an answer of the list.
\<close>

fun try_free :: "stmt \<Rightarrow> bool" and try_free_block :: "stmt list \<Rightarrow> bool" where
  "try_free (Import m a) = True"
| "try_free (ImportFrom m ns) = True"
| "try_free (Assign t e) = True"
| "try_free (ExprStmt e) = True"
| "try_free (For x e body) = try_free_block body"
| "try_free (FunctionDef f ps body) = try_free_block body"
| "try_free (Return e) = True"
| "try_free (If c a b) = (try_free_block a \<and> try_free_block b)"
| "try_free (While c body) = try_free_block body"
| "try_free (Try body c handler) = False"
| "try_free (ClassDef c body) = try_free_block body"
| "try_free_block [] = True"
| "try_free_block (s # ss) = (try_free s \<and> try_free_block ss)"

fun handler_free :: "val \<Rightarrow> bool" where
  "handler_free (VFun n ps body) = try_free_block body"
| "handler_free (VTuple vs) = (\<forall>v \<in> set vs. handler_free v)"
| "handler_free (VDict kvs) = (\<forall>kv \<in> set kvs. handler_free (fst kv) \<and> handler_free (snd kv))"
| "handler_free v = True"

fun handles :: "val \<Rightarrow> nat list" where
  "handles (VObj h) = [h]"
| "handles (VTuple vs) = concat (map handles vs)"
| "handles (VDict kvs) = concat (map (\<lambda>kv. handles (fst kv) @ handles (snd kv)) kvs)"
| "handles v = []"

fun answer_handles :: "exn + val \<Rightarrow> nat list" where
  "answer_handles (Inl e) = []"
| "answer_handles (Inr v) = handles v"

definition answered :: "(exn + val) list \<Rightarrow> nat set" where
  "answered as = set (concat (map answer_handles as))"

definition accounted :: "(exn + val) list \<Rightarrow> val \<Rightarrow> bool" where
  "accounted as v = (handler_free v \<and> set (handles v) \<subseteq> answered as)"

definition accounted_state :: "('s \<times> log) pystate \<Rightarrow> bool" where
  "accounted_state st =
     ((\<forall>x v. globals st x = Some v \<longrightarrow> accounted (answers st) v) \<and>
      (\<forall>ns l x v. locals st = Some (ns, l) \<longrightarrow> l x = Some v \<longrightarrow> accounted (answers st) v) \<and>
      (\<forall>vs \<in> set (heap st). \<forall>v \<in> set vs. accounted (answers st) v))"

text \<open>
  A run passes on the exceptions of the library when, among the answers it has received,
  only the last can be an exception, and then the run has ended with that exception.
\<close>

fun propagated :: "(exn + val) list \<Rightarrow> abort option \<Rightarrow> bool" where
  "propagated [] r = True"
| "propagated (Inr v # as) r = propagated as r"
| "propagated (Inl e # as) r = (as = [] \<and> r = Some (Raise e))"

definition abort_of :: "abort + 'a \<Rightarrow> abort option" where
  "abort_of r = (case r of Inl a \<Rightarrow> Some a | Inr v \<Rightarrow> None)"

definition abort_of_flow :: "flow \<Rightarrow> abort option" where
  "abort_of_flow f = (case f of Abort a \<Rightarrow> Some a | _ \<Rightarrow> None)"

definition abort_of_result :: "cell_result \<Rightarrow> abort option" where
  "abort_of_result r = (case r of Failed i a \<Rightarrow> Some a | Finished \<Rightarrow> None)"

text \<open>
  \<open>passes st st' r\<close>: from \<open>st\<close> to \<open>st'\<close> the log has only grown, the answers added
  were passed on, and everything in \<open>st'\<close> is accounted for.
\<close>

definition passes :: "('s \<times> log) pystate \<Rightarrow> ('s \<times> log) pystate \<Rightarrow> abort option \<Rightarrow> bool" where
  "passes st st' r =
     (accounted_state st' \<and>
      (\<exists>new. answers st' = answers st @ new \<and> propagated new r))"

section \<open>Bindings are changed by statements only\<close>

lemma same_names_refl [simp]: "same_names st st"
  by (simp add: same_names_def)

lemma same_names_trans: "same_names a b \<Longrightarrow> same_names b c \<Longrightarrow> same_names a c"
  by (simp add: same_names_def)

lemma ask_same: "same_names st (snd (ask lib req st))"
  by (simp add: ask_def same_names_def split: prod.splits sum.splits)

lemma alloc_same: "same_names st (snd (alloc_list vs st))"
  by (simp add: alloc_list_def same_names_def)

lemma list_repeat_same: "same_names st (snd (list_repeat r n st))"
  by (simp add: list_repeat_def alloc_list_def same_names_def)

lemma list_binop_same: "same_names st (snd (list_binop op p r st))"
  by (simp add: list_binop_def list_repeat_def alloc_list_def same_names_def split: val.splits)

lemma binop_same: "same_names st (snd (py_binop lib op l r st))"
  by (simp add: py_binop_def ask_same list_binop_same list_repeat_same split: val.splits)

lemma getitem_same: "same_names st (snd (py_getitem lib b i st))"
  by (simp add: py_getitem_def ask_same split: val.splits option.splits)

lemma getattr_same: "same_names st (snd (py_getattr lib b a st))"
  by (simp add: py_getattr_def ask_same split: val.splits)

lemma builtin_same: "same_names st (snd (call_builtin f avs kvs st))"
  by (simp add: call_builtin_def alloc_same split: list.splits val.splits)

lemma setitem_same: "same_names st (snd (py_setitem lib b i v st))"
  using ask_same [of st lib "LSetItem b i v"]
  by (auto simp add: py_setitem_def same_names_def split: val.splits option.splits prod.splits sum.splits)


lemma store_frame: "x \<in> set bs \<Longrightarrow> frame bs st (store_name x v st)"
  by (auto simp add: frame_def store_name_def split: option.splits)

lemma frame_refl [simp]: "frame bs st st"
  by (auto simp add: frame_def split: option.splits)

lemma frame_same: "same_names st st' \<Longrightarrow> frame bs st st'"
  by (auto simp add: frame_def same_names_def split: option.splits)

lemma frame_trans: "frame bs a b \<Longrightarrow> frame bs b c \<Longrightarrow> frame bs a c"
  by (auto simp add: frame_def split: option.splits)

lemma frame_mono: "frame bs a b \<Longrightarrow> set bs \<subseteq> set cs \<Longrightarrow> frame cs a b"
  by (auto simp add: frame_def split: option.splits)

lemma same_frame: "same_names a b \<Longrightarrow> frame bs b c \<Longrightarrow> frame bs a c"
  by (auto simp add: frame_def same_names_def split: option.splits)

lemma frame_then_same: "frame bs a b \<Longrightarrow> same_names b c \<Longrightarrow> frame bs a c"
  by (auto simp add: frame_def same_names_def split: option.splits)

lemma import_names_frame: "frame ns st (snd (import_names lib m ns st))"
proof (induction ns arbitrary: st)
  case Nil
  show ?case by simp
next
  case (Cons n ns)
  show ?case
  proof (cases "ask lib (LImportFrom m n) st")
    case (Pair r st1)
    have s1: "same_names st st1" using ask_same [of st lib "LImportFrom m n"] Pair by simp
    show ?thesis
    proof (cases r)
      case (Inl a)
      then show ?thesis using Pair s1 by (simp add: frame_same)
    next
      case (Inr v)
      have f1: "frame (n # ns) st1 (store_name n v st1)" by (rule store_frame) simp
      have f2: "frame (n # ns) (store_name n v st1) (snd (import_names lib m ns (store_name n v st1)))"
        by (rule frame_mono [OF Cons.IH]) auto
      show ?thesis using Pair Inr same_frame [OF s1 frame_trans [OF f1 f2]] by simp
    qed
  qed
qed


lemma sameD: "same_names st st' \<Longrightarrow> globals st' = globals st \<and> locals st' = locals st"
  by (simp add: same_names_def)

lemmas prim_names [simp] =
  ask_same [THEN sameD, THEN conjunct1] ask_same [THEN sameD, THEN conjunct2]
  alloc_same [THEN sameD, THEN conjunct1] alloc_same [THEN sameD, THEN conjunct2]
  binop_same [THEN sameD, THEN conjunct1] binop_same [THEN sameD, THEN conjunct2]
  getitem_same [THEN sameD, THEN conjunct1] getitem_same [THEN sameD, THEN conjunct2]
  getattr_same [THEN sameD, THEN conjunct1] getattr_same [THEN sameD, THEN conjunct2]
  builtin_same [THEN sameD, THEN conjunct1] builtin_same [THEN sameD, THEN conjunct2]
  setitem_same [THEN sameD, THEN conjunct1] setitem_same [THEN sameD, THEN conjunct2]

lemma interp_frame:
  "same_names st (snd (eval_expr lib d e st))"
  "same_names st (snd (eval_exprs lib d es st))"
  "same_names st (snd (eval_kwargs lib d kws st))"
  "same_names st (snd (eval_items lib d items acc st))"
  "frame (binds s) st (snd (exec_stmt lib d s st))"
  "frame (binds_block ss) st (snd (exec_block lib d ss st))"
  "frame (x # binds_block body) st (snd (exec_for lib d x r js body st))"
proof (induction lib d e st and lib d es st and lib d kws st and lib d items acc st
         and lib d s st and lib d ss st and lib d x r js body st
         rule: eval_expr_eval_exprs_eval_kwargs_eval_items_exec_stmt_exec_block_exec_for.induct)
  case (1 lib d x st)
  then show ?case by simp
next
  case (2 lib d n st)
  then show ?case by simp
next
  case (3 lib d s st)
  then show ?case by simp
next
  case (4 lib d s st)
  then show ?case by simp
next
  case (5 lib d st)
  then show ?case by simp
next
  case (6 lib d st)
  then show ?case by simp
next
  case (7 lib d es st)
  then show ?case
    by (auto simp add: same_names_def split: prod.splits sum.splits)
next
  case (8 lib d es st)
  then show ?case
    by (auto simp add: same_names_def split: prod.splits sum.splits)
next
  case (9 lib d items st)
  then show ?case by simp
next
  case (10 lib d l op r st)
  then show ?case
    by (auto simp add: same_names_def split: prod.splits sum.splits)
next
  case (11 lib d e a st)
  then show ?case
    by (auto simp add: same_names_def split: prod.splits sum.splits)
next
  case (12 lib d e i st)
  then show ?case
    by (auto simp add: same_names_def split: prod.splits sum.splits)
next
  case (13 lib d f args kws st)
  obtain r1 st1 where e1: "(r1, st1) = eval_expr lib d f st" by (metis surj_pair)
  have s1: "same_names st st1" using 13(1) e1 [symmetric] by simp
  show ?case
  proof (cases r1)
    case (Inl a)
    then show ?thesis using e1 [symmetric] s1 by simp
  next
    case fv: (Inr fv)
    obtain r2 st2 where e2: "(r2, st2) = eval_exprs lib d args st1" by (metis surj_pair)
    have s2: "same_names st st2"
      using 13(2) [OF e1 fv] e2 [symmetric] s1 by (simp add: same_names_def)
    show ?thesis
    proof (cases r2)
      case (Inl a)
      then show ?thesis using e1 [symmetric] e2 [symmetric] fv s2 by simp
    next
      case avs: (Inr avs)
      obtain r3 st3 where e3: "(r3, st3) = eval_kwargs lib d kws st2" by (metis surj_pair)
      have s3: "same_names st st3"
        using 13(3) [OF e1 fv e2 avs] e3 [symmetric] s2 by (simp add: same_names_def)
      show ?thesis
      proof (cases r3)
        case (Inl a)
        then show ?thesis using e1 [symmetric] e2 [symmetric] e3 [symmetric] fv avs s3 by simp
      next
        case kvs: (Inr kvs)
        note ev = e1 [symmetric] e2 [symmetric] e3 [symmetric] fv avs kvs
        show ?thesis
        proof (cases fv)
          case (VFun n ps body)
          show ?thesis
          proof (cases "bind_params ps avs kvs")
            case None
            then show ?thesis using ev VFun s3 by simp
          next
            case (Some l)
            show ?thesis
            proof (cases "d = 0")
              case True
              then show ?thesis using ev VFun Some s3 by simp
            next
              case False
              let ?st = "st3\<lparr>locals := Some (ps @ binds_block body, l)\<rparr>"
              have "frame (binds_block body) ?st (snd (exec_block lib (d - 1) body ?st))"
                using 13(4) [OF e1 fv e2 avs e3 kvs VFun Some False] .
              then have "globals (snd (exec_block lib (d - 1) body ?st)) = globals st3"
                by (simp add: frame_def)
              then show ?thesis
                using ev VFun Some False s3
                by (auto simp add: same_names_def split: prod.splits flow.splits)
            qed
          qed
        qed (use ev s3 in \<open>simp_all add: same_names_def\<close>)
      qed
    qed
  qed
next
  case (14 lib d st)
  then show ?case by simp
next
  case (15 lib d e es st)
  then show ?case
    by (auto simp add: same_names_def split: prod.splits sum.splits)
next
  case (16 lib d st)
  then show ?case by simp
next
  case (17 lib d k e kws st)
  then show ?case
    by (auto simp add: same_names_def split: prod.splits sum.splits)
next
  case (18 lib d acc st)
  then show ?case by simp
next
  case (19 lib d ke ve items acc st)
  then show ?case
    by (auto simp add: same_names_def split: prod.splits sum.splits)
next
  case (20 lib d m a st)
  obtain r1 st1 where e1: "(r1, st1) = ask lib (LImport m) st" by (metis surj_pair)
  have s1: "same_names st st1" using ask_same [of st lib "LImport m"] e1 [symmetric] by simp
  show ?case
  proof (cases r1)
    case (Inl b)
    then show ?thesis using e1 [symmetric] frame_same [OF s1] by simp
  next
    case (Inr v)
    have "frame [a] st (store_name a v st1)"
      by (rule same_frame [OF s1 store_frame]) simp
    then show ?thesis using e1 [symmetric] Inr by simp
  qed
next
  case (21 lib d m ns st)
  obtain r1 st1 where e1: "(r1, st1) = ask lib (LImport m) st" by (metis surj_pair)
  have s1: "same_names st st1" using ask_same [of st lib "LImport m"] e1 [symmetric] by simp
  show ?case
  proof (cases r1)
    case (Inl b)
    then show ?thesis using e1 [symmetric] frame_same [OF s1] by simp
  next
    case (Inr v)
    have "frame ns st (snd (import_names lib v ns st1))"
      by (rule same_frame [OF s1 import_names_frame])
    then show ?thesis using e1 [symmetric] Inr by simp
  qed
next
  case (22 lib d t e st)
  obtain r1 st1 where e1: "(r1, st1) = eval_expr lib d e st" by (metis surj_pair)
  have s1: "same_names st st1" using 22(1) e1 [symmetric] by simp
  show ?case
  proof (cases r1)
    case (Inl b)
    then show ?thesis using e1 [symmetric] frame_same [OF s1] by simp
  next
    case v: (Inr v)
    show ?thesis
    proof (cases t)
      case (TName x)
      have "frame [x] st (store_name x v st1)"
        by (rule same_frame [OF s1 store_frame]) simp
      then show ?thesis using e1 [symmetric] v TName by simp
    next
      case (TSubscript b i)
      obtain r2 st2 where e2: "(r2, st2) = eval_expr lib d b st1" by (metis surj_pair)
      have s2: "same_names st st2"
        using 22(2) [OF e1 v TSubscript] e2 [symmetric] s1 by (simp add: same_names_def)
      show ?thesis
      proof (cases r2)
        case (Inl a)
        then show ?thesis
          using e1 [symmetric] e2 [symmetric] v TSubscript frame_same [OF s2] by simp
      next
        case bv: (Inr bv)
        obtain r3 st3 where e3: "(r3, st3) = eval_expr lib d i st2" by (metis surj_pair)
        have s3: "same_names st st3"
          using 22(3) [OF e1 v TSubscript e2 bv] e3 [symmetric] s2
          by (simp add: same_names_def)
        show ?thesis
        proof (cases r3)
          case (Inl a)
          then show ?thesis
            using e1 [symmetric] e2 [symmetric] e3 [symmetric] v bv TSubscript
              frame_same [OF s3] by simp
        next
          case (Inr iv)
          have "same_names st (snd (py_setitem lib bv iv v st3))"
            by (rule same_names_trans [OF s3 setitem_same])
          then show ?thesis
            using e1 [symmetric] e2 [symmetric] e3 [symmetric] v bv Inr TSubscript
            by (simp add: frame_same)
        qed
      qed
    qed
  qed
next
  case (23 lib d e st)
  obtain r1 st1 where e1: "(r1, st1) = eval_expr lib d e st" by (metis surj_pair)
  have s1: "same_names st st1" using 23(1) e1 [symmetric] by simp
  show ?case using e1 [symmetric] frame_same [OF s1] by (cases r1) simp_all
next
  case (24 lib d x e body st)
  obtain r1 st1 where e1: "(r1, st1) = eval_expr lib d e st" by (metis surj_pair)
  have s1: "same_names st st1" using 24(1) e1 [symmetric] by simp
  show ?case
  proof (cases r1)
    case (Inl b)
    then show ?thesis using e1 [symmetric] frame_same [OF s1] by simp
  next
    case v: (Inr v)
    show ?thesis
    proof (cases v)
      case (VList r)
      show ?thesis
      proof (cases "r < length (heap st1)")
        case True
        have "frame (x # binds_block body) st
                (snd (exec_for lib d x r [0..<length (heap st1 ! r)] body st1))"
          by (rule same_frame [OF s1 24(2) [OF e1 v VList True]])
        then show ?thesis using e1 [symmetric] v VList True by simp
      next
        case False
        then show ?thesis using e1 [symmetric] v VList frame_same [OF s1] by simp
      qed
    qed (use e1 [symmetric] v frame_same [OF s1] in simp_all)
  qed
next
  case (25 lib d f ps body st)
  then show ?case by (simp add: store_frame)
next
  case (26 lib d e st)
  show ?case
  proof (cases "locals st = None")
    case True
    then show ?thesis by simp
  next
    case False
    obtain r1 st1 where e1: "(r1, st1) = eval_expr lib d e st" by (metis surj_pair)
    have s1: "same_names st st1" using 26(1) [OF False] e1 [symmetric] by simp
    show ?thesis using False e1 [symmetric] frame_same [OF s1] by (cases r1) simp_all
  qed
next
  case (27 lib d c a b st)
  then show ?case by simp
next
  case (28 lib d c body st)
  then show ?case by simp
next
  case (29 lib d body c handler st)
  obtain r1 st1 where e1: "(r1, st1) = exec_block lib d body st" by (metis surj_pair)
  have f1: "frame (binds_block body @ binds_block handler) st st1"
    using frame_mono [OF 29(1), of "binds_block body @ binds_block handler"] e1 [symmetric]
    by simp
  show ?case
  proof (cases r1)
    case Next
    then show ?thesis using e1 [symmetric] f1 by simp
  next
    case (Ret v)
    then show ?thesis using e1 [symmetric] f1 by simp
  next
    case (Abort a)
    show ?thesis
    proof (cases a)
      case Unsupported
      then show ?thesis using e1 [symmetric] Abort f1 by simp
    next
      case (Raise ex)
      show ?thesis
      proof (cases "catches c ex")
        case None
        then show ?thesis using e1 [symmetric] Abort Raise f1 by simp
      next
        case (Some b)
        show ?thesis
        proof (cases b)
          case True
          have "frame (binds_block body @ binds_block handler) st1
                  (snd (exec_block lib d handler st1))"
            by (rule frame_mono [OF 29(2) [OF e1 Abort Raise Some eqTrueI [OF True]]]) simp
          then show ?thesis
            using e1 [symmetric] Abort Raise Some True frame_trans [OF f1] by simp
        next
          case False
          then show ?thesis using e1 [symmetric] Abort Raise Some f1 by simp
        qed
      qed
    qed
  qed
next
  case (30 lib d c body st)
  then show ?case by simp
next
  case (31 lib d st)
  then show ?case by simp
next
  case (32 lib d s ss st)
  obtain r1 st1 where e1: "(r1, st1) = exec_stmt lib d s st" by (metis surj_pair)
  have f1: "frame (binds s @ binds_block ss) st st1"
    using frame_mono [OF 32(1), of "binds s @ binds_block ss"] e1 [symmetric] by simp
  show ?case
  proof (cases r1)
    case Next
    have "frame (binds s @ binds_block ss) st1 (snd (exec_block lib d ss st1))"
      by (rule frame_mono [OF 32(2) [OF e1 Next]]) simp
    then show ?thesis using e1 [symmetric] Next frame_trans [OF f1] by simp
  next
    case (Ret v)
    then show ?thesis using e1 [symmetric] f1 by simp
  next
    case (Abort a)
    then show ?thesis using e1 [symmetric] f1 by simp
  qed
next
  case (33 lib d x r body st)
  then show ?case by simp
next
  case (34 lib d x r i js body st)
  show ?case
  proof (cases "r < length (heap st) \<and> i < length (heap st ! r)")
    case False
    then show ?thesis by auto
  next
    case True
    let ?st0 = "store_name x (heap st ! r ! i) st"
    obtain r1 st1 where e1: "(r1, st1) = exec_block lib d body ?st0" by (metis surj_pair)
    have f0: "frame (x # binds_block body) st ?st0" by (rule store_frame) simp
    have "frame (x # binds_block body) ?st0 st1"
      using frame_mono [OF 34(1) [OF True], of "x # binds_block body"] e1 [symmetric]
      by auto
    then have f1: "frame (x # binds_block body) st st1" by (rule frame_trans [OF f0])
    show ?thesis
    proof (cases r1)
      case Next
      have "frame (x # binds_block body) st1 (snd (exec_for lib d x r js body st1))"
        by (rule 34(2) [OF True e1 Next])
      then show ?thesis using True e1 [symmetric] Next frame_trans [OF f1] by simp
    next
      case (Ret v)
      then show ?thesis using True e1 [symmetric] f1 by simp
    next
      case (Abort a)
      then show ?thesis using True e1 [symmetric] f1 by simp
    qed
  qed
qed

text \<open>The same for the run of a cell and of a sequence of cells.\<close>

lemma exec_cell_from_append:
  "exec_cell_from lib d i (xs @ ys) st =
     (case exec_cell_from lib d i xs st of
        (Finished, st1) \<Rightarrow> exec_cell_from lib d (i + length xs) ys st1
      | (Failed j a, st1) \<Rightarrow> (Failed j a, st1))"
  by (induction xs arbitrary: i st) (auto split: prod.splits flow.splits cell_result.splits)

lemma exec_cell_from_index:
  "exec_cell_from lib d i c st = (Failed j a, st') \<Longrightarrow> i \<le> j \<and> j < i + length c"
  by (induction c arbitrary: i st) (fastforce split: prod.splits flow.splits)+

lemma exec_cell_from_frame: "frame (binds_block c) st (snd (exec_cell_from lib d i c st))"
proof (induction c arbitrary: i st)
  case Nil
  show ?case by simp
next
  case (Cons s ss)
  obtain r1 st1 where e1: "exec_stmt lib d s st = (r1, st1)" by (metis surj_pair)
  have f1: "frame (binds s @ binds_block ss) st st1"
    using frame_mono [OF interp_frame(5) [of s st lib d], of "binds s @ binds_block ss"] e1
    by simp
  show ?case
  proof (cases r1)
    case Next
    have "frame (binds s @ binds_block ss) st1 (snd (exec_cell_from lib d (Suc i) ss st1))"
      by (rule frame_mono [OF Cons.IH]) simp
    then show ?thesis using e1 Next frame_trans [OF f1] by simp
  next
    case (Ret v)
    then show ?thesis using e1 f1 by simp
  next
    case (Abort a)
    then show ?thesis using e1 f1 by simp
  qed
qed

lemma cell_module_level:
  "locals st = None \<Longrightarrow> locals (snd (exec_cell_from lib d i c st)) = None"
  using exec_cell_from_frame [of c st lib d i] by (simp add: frame_def)

lemma cell_keeps:
  "locals st = None \<Longrightarrow> x \<notin> set (binds_block c) \<Longrightarrow>
   globals (snd (exec_cell_from lib d i c st)) x = globals st x"
  using exec_cell_from_frame [of c st lib d i] by (simp add: frame_def)

lemma cell_keeps_bound:
  "locals st = None \<Longrightarrow> globals st x \<noteq> None \<Longrightarrow>
   globals (snd (exec_cell_from lib d i c st)) x \<noteq> None"
  using exec_cell_from_frame [of c st lib d i] by (simp add: frame_def)

lemma import_names_binds:
  "locals st = None \<Longrightarrow> import_names lib m ns st = (Next, st') \<Longrightarrow> n \<in> set ns \<Longrightarrow>
   globals st' n \<noteq> None"
proof (induction ns arbitrary: st)
  case Nil
  then show ?case by simp
next
  case (Cons k ks)
  obtain r1 st1 where e1: "ask lib (LImportFrom m k) st = (r1, st1)" by (metis surj_pair)
  have l1: "locals st1 = None" and g1: "globals st1 = globals st"
    using ask_same [of st lib "LImportFrom m k"] e1 Cons.prems(1) by (simp_all add: same_names_def)
  show ?case
  proof (cases r1)
    case (Inl a)
    then show ?thesis using e1 Cons.prems(2) by simp
  next
    case (Inr v)
    let ?st = "store_name k v st1"
    have l2: "locals ?st = None" and g2: "globals ?st k = Some v"
      using l1 by (simp_all add: store_name_def)
    have run: "import_names lib m ks ?st = (Next, st')"
      using e1 Inr Cons.prems(2) by simp
    show ?thesis
    proof (cases "n \<in> set ks")
      case True
      then show ?thesis using Cons.IH [OF l2 run] by simp
    next
      case False
      then have "n = k" using Cons.prems(3) by simp
      moreover have "globals st' k \<noteq> None"
        using import_names_frame [of ks ?st lib m] run l2 g2 by (simp add: frame_def)
      ultimately show ?thesis by simp
    qed
  qed
qed

lemma run_cells_keeps:
  "locals st = None \<Longrightarrow> \<forall>c \<in> set cs. x \<notin> set (binds_block c) \<Longrightarrow>
   locals (run_cells lib d cs st) = None \<and> globals (run_cells lib d cs st) x = globals st x"
proof (induction cs arbitrary: st)
  case Nil
  then show ?case by (simp add: run_cells_def)
next
  case (Cons c cs)
  let ?st = "snd (exec_cell lib d c st)"
  have "locals ?st = None" and "globals ?st x = globals st x"
    using Cons.prems cell_module_level [of st lib d 0 c] cell_keeps [of st x c lib d 0]
    by (simp_all add: exec_cell_def)
  then show ?case using Cons.IH [of ?st] Cons.prems(2) by (simp add: run_cells_def)
qed

lemma simple_binder_binds:
  assumes "simple_binder s" and "locals st = None" and "exec_stmt lib d s st = (Next, st')"
    and "x \<in> set (binds s)"
  shows "globals st' x \<noteq> None"
proof (cases s)
  case (Import m a)
  obtain r1 st1 where e1: "ask lib (LImport m) st = (r1, st1)" by (metis surj_pair)
  have l1: "locals st1 = None"
    using ask_same [of st lib "LImport m"] e1 assms(2) by (simp add: same_names_def)
  show ?thesis
    using assms(3,4) Import e1 l1 by (cases r1) (auto simp add: store_name_def)
next
  case (ImportFrom m ns)
  obtain r1 st1 where e1: "ask lib (LImport m) st = (r1, st1)" by (metis surj_pair)
  have l1: "locals st1 = None"
    using ask_same [of st lib "LImport m"] e1 assms(2) by (simp add: same_names_def)
  show ?thesis
  proof (cases r1)
    case (Inl a)
    then show ?thesis using assms(3) ImportFrom e1 by simp
  next
    case (Inr v)
    then have "import_names lib v ns st1 = (Next, st')" using assms(3) ImportFrom e1 by simp
    then show ?thesis using import_names_binds [OF l1] assms(4) ImportFrom by simp
  qed
next
  case (Assign t e)
  then obtain y where t: "t = TName y" using assms(1) by (cases t) simp_all
  obtain r1 st1 where e1: "eval_expr lib d e st = (r1, st1)" by (metis surj_pair)
  have l1: "locals st1 = None"
    using interp_frame(1) [of st lib d e] e1 assms(2) by (simp add: same_names_def)
  show ?thesis
    using assms(3,4) Assign t e1 l1
    by (cases r1) (auto simp add: store_name_def)
next
  case (FunctionDef f ps body)
  then show ?thesis using assms by (auto simp add: store_name_def)
qed (use assms in simp_all)

lemma finished_binds:
  "exec_cell_from lib d i c st = (Finished, st') \<Longrightarrow> locals st = None \<Longrightarrow>
   s \<in> set c \<Longrightarrow> simple_binder s \<Longrightarrow> x \<in> set (binds s) \<Longrightarrow> globals st' x \<noteq> None"
proof (induction c arbitrary: i st)
  case Nil
  then show ?case by simp
next
  case (Cons s0 ss)
  obtain r1 st1 where e1: "exec_stmt lib d s0 st = (r1, st1)" by (metis surj_pair)
  have r1: "r1 = Next" using Cons.prems(1) e1 by (cases r1) simp_all
  have run: "exec_cell_from lib d (Suc i) ss st1 = (Finished, st')"
    using Cons.prems(1) e1 r1 by simp
  have l1: "locals st1 = None"
    using interp_frame(5) [of s0 st lib d] e1 Cons.prems(2) by (simp add: frame_def)
  show ?case
  proof (cases "s \<in> set ss")
    case True
    then show ?thesis using Cons.IH [OF run l1] Cons.prems by simp
  next
    case False
    then have "s = s0" using Cons.prems(3) by simp
    then have "globals st1 x \<noteq> None"
      using simple_binder_binds [OF _ Cons.prems(2) _ Cons.prems(5)] Cons.prems(4) e1 r1 by simp
    then show ?thesis using cell_keeps_bound [OF l1, of x lib d "Suc i" ss] run by simp
  qed
qed

lemma exec_cell_from_snoc:
  "exec_cell_from lib d i (xs @ [s]) st =
     (case exec_cell_from lib d i xs st of
        (Finished, st1) \<Rightarrow>
          (case exec_stmt lib d s st1 of
             (Next, st2) \<Rightarrow> (Finished, st2)
           | (Ret v, st2) \<Rightarrow> (Failed (i + length xs) Unsupported, st2)
           | (Abort a, st2) \<Rightarrow> (Failed (i + length xs) a, st2))
      | (Failed j a, st1) \<Rightarrow> (Failed j a, st1))"
  by (simp add: exec_cell_from_append split: prod.splits flow.splits cell_result.splits)

lemma loc_never_bound: "list_all (\<lambda>c. ''loc'' \<notin> set (binds_block c)) code_cells"
  by code_simp

lemma exec_cell_from_finished_append:
  assumes "exec_cell_from lib d i (xs @ ys) st = (Finished, st')"
  shows "\<exists>st1. exec_cell_from lib d i xs st = (Finished, st1) \<and>
               exec_cell_from lib d (i + length xs) ys st1 = (Finished, st')"
proof -
  obtain r st1 where e: "exec_cell_from lib d i xs st = (r, st1)" by (metis surj_pair)
  show ?thesis using assms e by (cases r) (simp_all add: exec_cell_from_append)
qed

text \<open>The loop of the variational EM cell, as the library sees it.\<close>

lemma ask_logged:
  assumes "ask (logged lib) req st = (r, st')"
  shows "requests st' = requests st @ [req]" and "heap st' = heap st"
    and "globals st' = globals st" and "locals st' = locals st"
    and "r = Inr v \<Longrightarrow> fst (lib req (unlogged st)) = Inr v"
  using assms
  by (auto simp add: ask_def logged_def requests_def split: prod.splits sum.splits)

lemma method_call:
  assumes run: "exec_stmt (logged lib) d (ExprStmt (Call (Attribute (Name x) a) [] [])) st = (Next, st')"
    and m: "locals st = None"
  shows "\<exists>h. globals st x = Some (VObj h)"
proof (cases "globals st x")
  case None
  then show ?thesis
    using run m
    by (auto simp add: lookup_name_def lookup_global_def builtin_value_def py_getattr_def
          split: if_splits)
next
  case (Some v)
  then show ?thesis
    using run m
    by (cases v) (auto simp add: lookup_name_def lookup_global_def py_getattr_def)
qed

lemma update_call:
  assumes meth: "\<forall>b s v. fst (lib (LGetAttr b ''update'') s) = Inr v \<longrightarrow> is_obj v"
    and run: "exec_stmt (logged lib) d (ExprStmt (Call (Attribute (Name x) ''update'') [] [])) st
               = (Next, st')"
    and m: "locals st = None" and g: "globals st x = Some (VObj h)"
  shows "\<exists>u. requests st' = requests st @ [LGetAttr (VObj h) ''update'', LCall u [] []] \<and>
             heap st' = heap st \<and> globals st' = globals st \<and> locals st' = locals st"
proof -
  obtain r1 st1 where e1: "ask (logged lib) (LGetAttr (VObj h) ''update'') st = (r1, st1)"
    by (metis surj_pair)
  note a1 = ask_logged [OF e1]
  show ?thesis
  proof (cases r1)
    case (Inl a)
    then show ?thesis
      using run m g e1 by (simp add: lookup_name_def lookup_global_def py_getattr_def)
  next
    case (Inr u)
    then have "is_obj u" using meth a1(5) by blast
    then obtain k where u: "u = VObj k" by (cases u) (simp_all add: is_obj_def)
    obtain r2 st2 where e2: "ask (logged lib) (LCall (VObj k) [] []) st1 = (r2, st2)"
      by (metis surj_pair)
    note a2 = ask_logged [OF e2]
    have "st' = st2"
      using run m g e1 Inr u e2
      by (cases r2) (simp_all add: lookup_name_def lookup_global_def py_getattr_def)
    then show ?thesis using a1(1-4) a2(1-4) u by auto
  qed
qed


lemma em_iteration:
  assumes meth: "\<forall>b s v. fst (lib (LGetAttr b ''update'') s) = Inr v \<longrightarrow> is_obj v"
    and run: "exec_block (logged lib) d em_body st = (Next, st')"
    and m: "locals st = None"
    and ge: "globals st ''inference_e'' = Some (VObj e)"
    and gm: "globals st ''inference_m'' = Some (VObj m)"
  shows "\<exists>u. requests st' = requests st @ em_round e m u \<and>
             heap st' = heap st \<and> globals st' = globals st \<and> locals st' = locals st"
proof -
  define s1 where "s1 = ExprStmt (Call (Attribute (Name ''inference_e'') ''update'') [] [])"
  define s2 where "s2 = ExprStmt (Call (Attribute (Name ''inference_m'') ''update'') [] [])"
  have body: "em_body = [s1, s2]" by (simp add: em_body_def s1_def s2_def)
  obtain r1 st1 where e1: "exec_stmt (logged lib) d s1 st = (r1, st1)" by (metis surj_pair)
  have r1: "r1 = Next" using run e1 by (cases r1) (simp_all add: body)
  obtain r2 st2 where e2: "exec_stmt (logged lib) d s2 st1 = (r2, st2)" by (metis surj_pair)
  have r2: "r2 = Next" and st2: "st2 = st'"
    using run e1 r1 e2 by (cases r2; simp add: body)+
  obtain u1 where c1: "requests st1 = requests st @ [LGetAttr (VObj e) ''update'', LCall u1 [] []]"
      "heap st1 = heap st" "globals st1 = globals st" "locals st1 = locals st"
    using update_call [OF meth e1 [unfolded r1 s1_def] m ge] by blast
  obtain u2 where c2: "requests st2 = requests st1 @ [LGetAttr (VObj m) ''update'', LCall u2 [] []]"
      "heap st2 = heap st1" "globals st2 = globals st1" "locals st2 = locals st1"
    using update_call [OF meth e2 [unfolded r2 s2_def], of m] m gm c1 by auto
  have "requests st' = requests st @ em_round e m (u1, u2)"
    using c1 c2 st2 by (simp add: em_round_def)
  moreover have "heap st' = heap st \<and> globals st' = globals st \<and> locals st' = locals st"
    using c1 c2 st2 by simp
  ultimately show ?thesis by blast
qed

lemma em_loop:
  assumes meth: "\<forall>b s v. fst (lib (LGetAttr b ''update'') s) = Inr v \<longrightarrow> is_obj v"
  shows "exec_for (logged lib) d ''_'' r js em_body st = (Next, st') \<Longrightarrow> locals st = None \<Longrightarrow>
         globals st ''inference_e'' = Some (VObj e) \<Longrightarrow>
         globals st ''inference_m'' = Some (VObj m) \<Longrightarrow>
         r < length (heap st) \<Longrightarrow> \<forall>j \<in> set js. j < length (heap st ! r) \<Longrightarrow>
         \<exists>us. length us = length js \<and>
              requests st' = requests st @ concat (map (em_round e m) us)"
proof (induction js arbitrary: st)
  case Nil
  then show ?case by simp
next
  case (Cons j js)
  let ?st0 = "store_name ''_'' (heap st ! r ! j) st"
  have cond: "r < length (heap st) \<and> j < length (heap st ! r)" using Cons.prems by simp
  have s0: "locals ?st0 = None" "globals ?st0 ''inference_e'' = Some (VObj e)"
      "globals ?st0 ''inference_m'' = Some (VObj m)" "heap ?st0 = heap st"
      "requests ?st0 = requests st"
    using Cons.prems(2-4) by (simp_all add: store_name_def requests_def)
  obtain r1 st1 where e1: "exec_block (logged lib) d em_body ?st0 = (r1, st1)"
    by (metis surj_pair)
  have r1: "r1 = Next" using Cons.prems(1) cond e1 by (cases r1) simp_all
  have rest: "exec_for (logged lib) d ''_'' r js em_body st1 = (Next, st')"
    using Cons.prems(1) cond e1 r1 by simp
  obtain u where it: "requests st1 = requests ?st0 @ em_round e m u" "heap st1 = heap ?st0"
      "globals st1 = globals ?st0" "locals st1 = locals ?st0"
    using em_iteration [OF meth e1 [unfolded r1] s0(1-3)] by blast
  have "\<exists>us. length us = length js \<and>
            requests st' = requests st1 @ concat (map (em_round e m) us)"
    using Cons.IH [OF rest] it s0 Cons.prems(5,6) by simp
  then obtain us where us: "length us = length js"
      "requests st' = requests st1 @ concat (map (em_round e m) us)" by blast
  have "length (u # us) = length (j # js) \<and>
        requests st' = requests st @ concat (map (em_round e m) (u # us))"
    using us it(1) s0(5) by simp
  then show ?case by blast
qed


lemma exec_cell_from_finished_snoc:
  assumes "exec_cell_from lib d i (xs @ [s]) st = (Finished, st')"
  shows "\<exists>st1. exec_cell_from lib d i xs st = (Finished, st1) \<and>
               exec_stmt lib d s st1 = (Next, st')"
proof -
  obtain st1 where a: "exec_cell_from lib d i xs st = (Finished, st1)"
    and b: "exec_cell_from lib d (i + length xs) [s] st1 = (Finished, st')"
    using exec_cell_from_finished_append [OF assms] by blast
  obtain r2 st2 where e: "exec_stmt lib d s st1 = (r2, st2)" by (metis surj_pair)
  have "r2 = Next \<and> st2 = st'" using b e by (cases r2) simp_all
  then show ?thesis using a e by simp
qed

lemma expr_stmt_names:
  assumes "exec_stmt lib d (ExprStmt e) st = (r, st')"
  shows "globals st' = globals st" and "locals st' = locals st"
proof -
  obtain r1 st1 where e1: "eval_expr lib d e st = (r1, st1)" by (metis surj_pair)
  have "same_names st st1" using interp_frame(1) [of st lib d e] e1 by simp
  moreover have "st' = st1" using assms e1 by (cases r1) simp_all
  ultimately show "globals st' = globals st" and "locals st' = locals st"
    by (simp_all add: same_names_def)
qed

lemma range_loop:
  assumes "locals st = None" and "globals st ''range'' = None"
  shows "exec_stmt lib d (For x (Call (Name ''range'') [Num n] []) body) st =
         exec_for lib d x (length (heap st)) [0..<nat n] body
           (st\<lparr>heap := heap st @ [map (\<lambda>k. VInt (int k)) [0..<nat n]]\<rparr>)"
  using assms
  by (simp add: lookup_name_def lookup_global_def builtin_value_def py_builtins_def
        call_builtin_def alloc_list_def)

lemma range_never_bound: "list_all (\<lambda>c. ''range'' \<notin> set (binds_block c)) code_cells"
  by code_simp

lemma obliging_iteration:
  assumes "locals st = None" and "globals st ''inference_e'' = Some (VObj e)"
    and "globals st ''inference_m'' = Some (VObj m)"
  shows "\<exists>st1. exec_block (logged obliging) d em_body st = (Next, st1) \<and> locals st1 = None \<and>
               globals st1 = globals st \<and> heap st1 = heap st"
  using assms
  by (simp add: em_body_def lookup_name_def lookup_global_def py_getattr_def ask_def
        logged_def obliging_def unlogged_def)

lemma obliging_loop:
  "locals st = None \<Longrightarrow> globals st ''inference_e'' = Some (VObj e) \<Longrightarrow>
   globals st ''inference_m'' = Some (VObj m) \<Longrightarrow>
   fst (exec_for (logged obliging) d ''_'' r js em_body st) = Next"
proof (induction js arbitrary: st)
  case Nil
  then show ?case by simp
next
  case (Cons j js)
  show ?case
  proof (cases "r < length (heap st) \<and> j < length (heap st ! r)")
    case False
    then show ?thesis by auto
  next
    case True
    let ?st0 = "store_name ''_'' (heap st ! r ! j) st"
    have s0: "locals ?st0 = None" "globals ?st0 ''inference_e'' = Some (VObj e)"
        "globals ?st0 ''inference_m'' = Some (VObj m)"
      using Cons.prems by (simp_all add: store_name_def)
    obtain st1 where e1: "exec_block (logged obliging) d em_body ?st0 = (Next, st1)"
      and s1: "locals st1 = None" "globals st1 = globals ?st0"
      using obliging_iteration [OF s0] by blast
    have "fst (exec_for (logged obliging) d ''_'' r js em_body st1) = Next"
      using Cons.IH [of st1] s0 s1 by simp
    then show ?thesis using True e1 by simp
  qed
qed

section \<open>Properties of the text of the cells\<close>






text \<open>
  C7, as the specification states it, fails: the Figure 7 cell defines two functions
  and calls one of them, \<^verbatim>\<open>generative_network(eps)\<close>.
\<close>

theorem fig7_calls_own_function:
  "defined_functions fig7_cell = [''generative_network'', ''discriminative_network''] \<and>
   filter (\<lambda>f. callee_root f \<in> set (defined_functions fig7_cell)) (callees fig7_cell) =
     [Name ''generative_network'']"
  by code_simp

text \<open>
  C7, amended: the notebook defines three functions of its own, \<open>rnn_cell\<close> (Figure 3),
  \<open>generative_network\<close> and \<open>discriminative_network\<close> (Figure 7), and calls one of
  them, \<open>generative_network\<close>, once. Every other callee starts from a name the cell
  imports from the external libraries, from a library object the cell has bound, or
  from one of the built-in functions \<open>range\<close> and \<open>float\<close>.
\<close>

theorem callees_of_cells:
  "map defined_functions code_cells =
     [[], [], [''rnn_cell''], [], [], [],
      [''generative_network'', ''discriminative_network''],
      [], [], [], [], [], [], []] \<and>
   map other_callees code_cells =
     [[], [], [], [], [], [], [''generative_network''], [''range''],
      [''float'', ''float''], [], [], [''range'', ''range''], [], []] \<and>
   builtin_value ''range'' = Some (VBuiltin ''range'') \<and>
   builtin_value ''float'' = Some (VBuiltin ''float'')"
  by code_simp


end
